theory Spec2Isabelle
  imports Complex_Main
begin

section \<open>Numbers: float64 with its special values\<close>

text \<open>
  pandas and numpy compute on IEEE-754 binary64 values. The embedding keeps the three
  special values the program can produce and branch on (the two infinities and
  not-a-number), and takes every finite value as the real number it stands for:
  arithmetic on finite values is exact (no rounding, no overflow, no underflow), and
  the two zeros are one value, read as +0 when it divides. A division by zero does
  not raise in numpy: it gives an infinity, or not-a-number for 0 / 0.

  Two things follow for what is stated below. Where binary64 overflows a finite
  result to an infinity the model keeps the real number, so a theorem that needs
  finite values assumes that the values the program computes are finite, not that
  its inputs are. And binary64 divides by -0.0 with the opposite sign, so no theorem
  over all inputs says which of the two infinities a division by zero gives; the
  sign appears only where a concrete input with the zero +0 is evaluated.
\<close>

datatype f64 = Fin real | PInf | NInf | NaN

fun f64_neg :: "f64 \<Rightarrow> f64" where
  "f64_neg (Fin a) = Fin (- a)"
| "f64_neg PInf = NInf"
| "f64_neg NInf = PInf"
| "f64_neg NaN = NaN"

fun f64_add :: "f64 \<Rightarrow> f64 \<Rightarrow> f64" where
  "f64_add (Fin a) (Fin b) = Fin (a + b)"
| "f64_add (Fin a) PInf = PInf"
| "f64_add (Fin a) NInf = NInf"
| "f64_add (Fin a) NaN = NaN"
| "f64_add PInf (Fin b) = PInf"
| "f64_add PInf PInf = PInf"
| "f64_add PInf NInf = NaN"
| "f64_add PInf NaN = NaN"
| "f64_add NInf (Fin b) = NInf"
| "f64_add NInf PInf = NaN"
| "f64_add NInf NInf = NInf"
| "f64_add NInf NaN = NaN"
| "f64_add NaN y = NaN"

definition f64_sub :: "f64 \<Rightarrow> f64 \<Rightarrow> f64" where
  "f64_sub x y = f64_add x (f64_neg y)"

text \<open>An infinity with the sign of a nonzero finite factor, or of a finite divisor.\<close>

definition signed_inf :: "bool \<Rightarrow> f64" where
  "signed_inf positive = (if positive then PInf else NInf)"

fun f64_mul :: "f64 \<Rightarrow> f64 \<Rightarrow> f64" where
  "f64_mul (Fin a) (Fin b) = Fin (a * b)"
| "f64_mul (Fin a) PInf = (if a = 0 then NaN else signed_inf (0 < a))"
| "f64_mul (Fin a) NInf = (if a = 0 then NaN else signed_inf (a < 0))"
| "f64_mul (Fin a) NaN = NaN"
| "f64_mul PInf (Fin b) = (if b = 0 then NaN else signed_inf (0 < b))"
| "f64_mul PInf PInf = PInf"
| "f64_mul PInf NInf = NInf"
| "f64_mul PInf NaN = NaN"
| "f64_mul NInf (Fin b) = (if b = 0 then NaN else signed_inf (b < 0))"
| "f64_mul NInf PInf = NInf"
| "f64_mul NInf NInf = PInf"
| "f64_mul NInf NaN = NaN"
| "f64_mul NaN y = NaN"

fun f64_div :: "f64 \<Rightarrow> f64 \<Rightarrow> f64" where
  "f64_div (Fin a) (Fin b) =
     (if b = 0 then (if a = 0 then NaN else signed_inf (0 < a)) else Fin (a / b))"
| "f64_div (Fin a) PInf = Fin 0"
| "f64_div (Fin a) NInf = Fin 0"
| "f64_div (Fin a) NaN = NaN"
| "f64_div PInf (Fin b) = signed_inf (0 \<le> b)"
| "f64_div PInf PInf = NaN"
| "f64_div PInf NInf = NaN"
| "f64_div PInf NaN = NaN"
| "f64_div NInf (Fin b) = signed_inf (b < 0)"
| "f64_div NInf PInf = NaN"
| "f64_div NInf NInf = NaN"
| "f64_div NInf NaN = NaN"
| "f64_div NaN y = NaN"

fun f64_sqrt :: "f64 \<Rightarrow> f64" where
  "f64_sqrt (Fin a) = (if a < 0 then NaN else Fin (sqrt a))"
| "f64_sqrt PInf = PInf"
| "f64_sqrt NInf = NaN"
| "f64_sqrt NaN = NaN"

text \<open>\<open>x ** n\<close> for a whole exponent: repeated multiplication, \<open>x ** 0 = 1\<close>.\<close>

fun f64_power :: "f64 \<Rightarrow> nat \<Rightarrow> f64" where
  "f64_power x 0 = Fin 1"
| "f64_power x (Suc n) = f64_mul x (f64_power x n)"

text \<open>The comparison \<open>x <= y\<close>: false as soon as one side is not-a-number.\<close>

fun f64_le :: "f64 \<Rightarrow> f64 \<Rightarrow> bool" where
  "f64_le (Fin a) (Fin b) = (a \<le> b)"
| "f64_le (Fin a) PInf = True"
| "f64_le (Fin a) NInf = False"
| "f64_le PInf (Fin b) = False"
| "f64_le PInf PInf = True"
| "f64_le PInf NInf = False"
| "f64_le NInf (Fin b) = True"
| "f64_le NInf PInf = True"
| "f64_le NInf NInf = True"
| "f64_le NaN y = False"
| "f64_le x NaN = False"

definition f64_max :: "f64 \<Rightarrow> f64 \<Rightarrow> f64" where
  "f64_max x y = (if f64_le x y then y else x)"

definition f64_min :: "f64 \<Rightarrow> f64 \<Rightarrow> f64" where
  "f64_min x y = (if f64_le x y then x else y)"

text \<open>\<open>np.isfinite\<close>: neither an infinity nor not-a-number.\<close>

fun is_finite :: "f64 \<Rightarrow> bool" where
  "is_finite (Fin a) = True"
| "is_finite PInf = False"
| "is_finite NInf = False"
| "is_finite NaN = False"

section \<open>Errors\<close>

text \<open>
  The exceptions the backtester can raise: \<open>freq[0]\<close> on an empty string and
  \<open>iloc[-1]\<close> on an empty series raise IndexError, a missing column raises
  KeyError, and \<open>pd.infer_freq\<close> raises ValueError on fewer than three dates.
\<close>

datatype error = IndexError | KeyError | ValueError

section \<open>The annualization factor\<close>

text \<open>
  \<^verbatim>\<open>
  mapping = {'D': 252, 'B': 252, 'H': 252 * 6.5, 'T': 252 * 6.5 * 4}
  return mapping.get(freq[0], 252)
  \<close>
\<close>

definition mapping :: "char \<rightharpoonup> real" where
  "mapping =
     [CHR ''D'' \<mapsto> 252,
      CHR ''B'' \<mapsto> 252,
      CHR ''H'' \<mapsto> 252 * 6.5,
      CHR ''T'' \<mapsto> 252 * 6.5 * 4]"

definition annualization_factor :: "string \<Rightarrow> error + real" where
  "annualization_factor freq =
     (case freq of
        [] \<Rightarrow> Inl IndexError
      | c # _ \<Rightarrow> Inr (case mapping c of None \<Rightarrow> 252 | Some v \<Rightarrow> v))"

section \<open>Series and the pandas operations the backtester calls\<close>

text \<open>
  A column of a DataFrame is a series of float64 values in index order. The operations
  are those of pandas with their default arguments: missing values (not-a-number) are
  skipped by the reductions and the cumulative operations, and an arithmetic operator
  between two columns of one frame works position by position.
\<close>

type_synonym series = "f64 list"

text \<open>\<open>s.fillna(v)\<close>: every not-a-number becomes \<open>v\<close>; an infinity stays.\<close>

definition fillna :: "real \<Rightarrow> series \<Rightarrow> series" where
  "fillna v xs = map (\<lambda>x. if x = NaN then Fin v else x) xs"

text \<open>\<open>s.shift(1)\<close>: every value moves one place down, the first place is missing.\<close>

definition shift :: "series \<Rightarrow> series" where
  "shift xs = (case xs of [] \<Rightarrow> [] | _ # _ \<Rightarrow> NaN # butlast xs)"

text \<open>Forward fill: a missing value takes the last value before it that is not missing.\<close>

fun ffill_from :: "f64 \<Rightarrow> series \<Rightarrow> series" where
  "ffill_from prev [] = []"
| "ffill_from prev (x # xs) =
     (if x = NaN then prev # ffill_from prev xs else x # ffill_from x xs)"

definition ffill :: "series \<Rightarrow> series" where
  "ffill xs = ffill_from NaN xs"

text \<open>
  \<open>s.pct_change()\<close>, whose default fills forward first:
  \<^verbatim>\<open>data = s.fillna(method='pad'); return data / data.shift(1) - 1\<close>
\<close>

definition pct_change :: "series \<Rightarrow> series" where
  "pct_change xs =
     (let data = ffill xs
      in map (\<lambda>q. f64_sub q (Fin 1)) (map2 f64_div data (shift data)))"

text \<open>
  \<open>s.cumprod()\<close> and \<open>s.cummax()\<close>: the running product and the running maximum
  of the values that are not missing; a missing value gives a missing result at its
  place and leaves the running value as it is.
\<close>

fun cumprod_from :: "f64 \<Rightarrow> series \<Rightarrow> series" where
  "cumprod_from acc [] = []"
| "cumprod_from acc (x # xs) =
     (if x = NaN then NaN # cumprod_from acc xs
      else f64_mul acc x # cumprod_from (f64_mul acc x) xs)"

definition cumprod :: "series \<Rightarrow> series" where
  "cumprod xs = cumprod_from (Fin 1) xs"

fun cummax_from :: "f64 \<Rightarrow> series \<Rightarrow> series" where
  "cummax_from acc [] = []"
| "cummax_from acc (x # xs) =
     (if x = NaN then NaN # cummax_from acc xs
      else f64_max acc x # cummax_from (f64_max acc x) xs)"

definition cummax :: "series \<Rightarrow> series" where
  "cummax xs = cummax_from NInf xs"

text \<open>The values a reduction sees, and their sum.\<close>

definition dropna :: "series \<Rightarrow> series" where
  "dropna xs = filter (\<lambda>x. x \<noteq> NaN) xs"

definition series_sum :: "series \<Rightarrow> f64" where
  "series_sum xs = foldr f64_add xs (Fin 0)"

text \<open>\<open>s.mean()\<close>: not-a-number when no value is left.\<close>

definition mean :: "series \<Rightarrow> f64" where
  "mean xs =
     (let vals = dropna xs
      in if vals = [] then NaN
         else f64_div (series_sum vals) (Fin (real (length vals))))"

text \<open>
  \<open>s.std()\<close>, the sample standard deviation (\<open>ddof = 1\<close>): not-a-number when fewer
  than two values are left.
\<close>

definition std :: "series \<Rightarrow> f64" where
  "std xs =
     (let vals = dropna xs; count = length vals
      in if count \<le> 1 then NaN
         else
           let avg = f64_div (series_sum vals) (Fin (real count));
               sqr = map (\<lambda>x. f64_mul (f64_sub avg x) (f64_sub avg x)) vals
           in f64_sqrt (f64_div (series_sum sqr) (Fin (real (count - 1)))))"

text \<open>\<open>s.min()\<close>: not-a-number when no value is left.\<close>

definition series_min :: "series \<Rightarrow> f64" where
  "series_min xs =
     (case dropna xs of [] \<Rightarrow> NaN | v # vals \<Rightarrow> foldl f64_min v vals)"

text \<open>\<open>s.iloc[-1]\<close>: IndexError on an empty series.\<close>

definition iloc_last :: "series \<Rightarrow> error + f64" where
  "iloc_last xs = (if xs = [] then Inl IndexError else Inr (last xs))"

section \<open>The DataFrame\<close>

text \<open>
  A frame is its index of dates (\<open>main\<close> reads the first CSV column as dates) and its
  columns by name. A frame whose index holds no dates, on which \<open>pd.infer_freq\<close>
  raises TypeError, is outside the model. Reading a column that is not there raises KeyError;
  \<open>df[c] = s\<close> adds the column \<open>c\<close> to the frame or overwrites it, in place: the
  model returns the frame after the assignment.
\<close>

type_synonym timestamp = int

record dataframe =
  index :: "timestamp list"
  cols :: "string \<rightharpoonup> series"

definition getitem :: "dataframe \<Rightarrow> string \<Rightarrow> error + series" where
  "getitem df c = (case cols df c of None \<Rightarrow> Inl KeyError | Some s \<Rightarrow> Inr s)"

definition setitem :: "dataframe \<Rightarrow> string \<Rightarrow> series \<Rightarrow> dataframe" where
  "setitem df c s = df\<lparr>cols := (cols df)(c \<mapsto> s)\<rparr>"

text \<open>
  \<open>pd.infer_freq(index)\<close> raises ValueError on fewer than three dates. On three
  dates or more it returns the frequency code its inference finds, or None when the
  spacing fits no frequency. The inference itself belongs to pandas and is a
  parameter of the model, \<open>inferer\<close>.
\<close>

definition infer_freq ::
  "(timestamp list \<Rightarrow> string option) \<Rightarrow> timestamp list \<Rightarrow> error + string option" where
  "infer_freq inferer idx =
     (if length idx < 3 then Inl ValueError else Inr (inferer idx))"

section \<open>compute\_performance\<close>

record performance =
  total_return :: f64
  annual_return :: f64
  annual_volatility :: f64
  sharpe_ratio :: f64
  max_drawdown :: f64
  equity_series :: series
  returns_series :: series

text \<open>
  The statements of \<open>compute_performance\<close>, each local variable under its own name.
  \<^verbatim>\<open>
  df['price_ret'] = df[price_col].pct_change().fillna(0)
  df['strat_ret'] = df[signal_col].shift(1).fillna(0) * df['price_ret']
  df['equity'] = (1 + df['strat_ret']).cumprod() * capital
  \<close>
\<close>

definition price_ret_of :: "series \<Rightarrow> series" where
  "price_ret_of prices = fillna 0 (pct_change prices)"

definition strat_ret_of :: "series \<Rightarrow> series \<Rightarrow> series" where
  "strat_ret_of signals price_ret = map2 f64_mul (fillna 0 (shift signals)) price_ret"

definition equity_of :: "series \<Rightarrow> f64 \<Rightarrow> series" where
  "equity_of strat_ret capital =
     map (\<lambda>x. f64_mul x capital) (cumprod (map (f64_add (Fin 1)) strat_ret))"

text \<open>
  \<^verbatim>\<open>
  ann_ret = (1 + mean_ret) ** ann_factor - 1
  ann_vol = std_ret * np.sqrt(ann_factor)
  sharpe  = (mean_ret / std_ret) * np.sqrt(ann_factor) if std_ret != 0 else np.nan
  \<close>
  Every factor \<open>annualization_factor\<close> returns is a whole number, so the power is a
  repeated multiplication.
\<close>

definition ann_ret_of :: "f64 \<Rightarrow> real \<Rightarrow> f64" where
  "ann_ret_of mean_ret ann_factor =
     f64_sub (f64_power (f64_add (Fin 1) mean_ret) (nat \<lfloor>ann_factor\<rfloor>)) (Fin 1)"

definition ann_vol_of :: "f64 \<Rightarrow> real \<Rightarrow> f64" where
  "ann_vol_of std_ret ann_factor = f64_mul std_ret (f64_sqrt (Fin ann_factor))"

definition sharpe_of :: "f64 \<Rightarrow> f64 \<Rightarrow> real \<Rightarrow> f64" where
  "sharpe_of mean_ret std_ret ann_factor =
     (if std_ret \<noteq> Fin 0
      then f64_mul (f64_div mean_ret std_ret) (f64_sqrt (Fin ann_factor))
      else NaN)"

text \<open>
  \<^verbatim>\<open>
  running_max = df['equity'].cummax()
  drawdown = df['equity'] / running_max - 1
  max_dd = drawdown.min()
  \<close>
\<close>

definition drawdown_of :: "series \<Rightarrow> series" where
  "drawdown_of equity =
     (let running_max = cummax equity
      in map (\<lambda>q. f64_sub q (Fin 1)) (map2 f64_div equity running_max))"

definition max_dd_of :: "series \<Rightarrow> f64" where
  "max_dd_of equity = series_min (drawdown_of equity)"

text \<open>
  \<^verbatim>\<open>freq = pd.infer_freq(df.index) or 'D'\<close>: None and the empty string both
  give \<open>'D'\<close>.
\<close>

definition or_D :: "string option \<Rightarrow> string" where
  "or_D inferred = (case inferred of None \<Rightarrow> ''D'' | Some s \<Rightarrow> if s = [] then ''D'' else s)"

text \<open>
  The function itself. It returns the caller's frame as the call leaves it, and the
  dictionary of results or the exception raised. An exception leaves the frame with
  the columns assigned before it.
\<close>

definition compute_performance ::
  "(timestamp list \<Rightarrow> string option) \<Rightarrow> dataframe \<Rightarrow> string \<Rightarrow> string \<Rightarrow> f64
     \<Rightarrow> dataframe \<times> (error + performance)" where
  "compute_performance inferer df signal_col price_col capital =
     (case getitem df price_col of
        Inl e \<Rightarrow> (df, Inl e)
      | Inr prices \<Rightarrow>
          let price_ret = price_ret_of prices;
              df1 = setitem df ''price_ret'' price_ret
          in
          (case getitem df1 signal_col of
             Inl e \<Rightarrow> (df1, Inl e)
           | Inr signals \<Rightarrow>
               let strat_ret = strat_ret_of signals price_ret;
                   df2 = setitem df1 ''strat_ret'' strat_ret;
                   equity = equity_of strat_ret capital;
                   df3 = setitem df2 ''equity'' equity
               in
               (case iloc_last equity of
                  Inl e \<Rightarrow> (df3, Inl e)
                | Inr last_equity \<Rightarrow>
                    let total_ret = f64_sub (f64_div last_equity capital) (Fin 1);
                        mean_ret = mean strat_ret;
                        std_ret = std strat_ret
                    in
                    (case infer_freq inferer (index df3) of
                       Inl e \<Rightarrow> (df3, Inl e)
                     | Inr inferred \<Rightarrow>
                         (case annualization_factor (or_D inferred) of
                            Inl e \<Rightarrow> (df3, Inl e)
                          | Inr ann_factor \<Rightarrow>
                              (df3, Inr
                                \<lparr>total_return = total_ret,
                                 annual_return = ann_ret_of mean_ret ann_factor,
                                 annual_volatility = ann_vol_of std_ret ann_factor,
                                 sharpe_ratio = sharpe_of mean_ret std_ret ann_factor,
                                 max_drawdown = max_dd_of equity,
                                 equity_series = equity,
                                 returns_series = strat_ret\<rparr>))))))"

text \<open>
  A frame with the default column names, as
  \<open>pd.DataFrame({'Close': prices, 'signal': signals}, index=idx)\<close> builds it.
\<close>

definition frame :: "timestamp list \<Rightarrow> series \<Rightarrow> series \<Rightarrow> dataframe" where
  "frame idx prices signals =
     \<lparr>index = idx, cols = [''Close'' \<mapsto> prices, ''signal'' \<mapsto> signals]\<rparr>"

section \<open>The maximum drawdown in the words of the specification\<close>

text \<open>
  For a series of real numbers, as the specification writes it:
  \<open>running_max[i] = max(equity[0..i])\<close>,
  \<open>drawdown[i] = equity[i] / running_max[i] - 1\<close> and
  \<open>max_drawdown = min(drawdown[i])\<close> over all \<open>i\<close>. These three definitions
  follow the specification, not the code; the code is \<open>max_dd_of\<close>.
\<close>

definition spec_running_max :: "real list \<Rightarrow> nat \<Rightarrow> real" where
  "spec_running_max equity i = Max (set (take (Suc i) equity))"

definition spec_drawdown :: "real list \<Rightarrow> nat \<Rightarrow> real" where
  "spec_drawdown equity i = equity ! i / spec_running_max equity i - 1"

definition spec_max_drawdown :: "real list \<Rightarrow> real" where
  "spec_max_drawdown equity = Min (spec_drawdown equity ` {..<length equity})"

section \<open>Properties of the annualization factor\<close>

lemma annualization_factor_Cons:
  "annualization_factor (c # rest) =
     Inr (if c = CHR ''T'' then 6552 else if c = CHR ''H'' then 1638 else 252)"
  by (simp add: annualization_factor_def mapping_def)

text \<open>
  C3: on the frequency codes of pandas, the factor is 252 for \<open>D\<close> (daily) and
  \<open>B\<close> (business day), 1638 for \<open>H\<close> (hourly) and 6552 for \<open>T\<close>; but
  \<open>15T\<close>, the code of 15-minute bars (the bars the \<open>T\<close> entry is commented
  to stand for), starts with the character 1 and gets the default 252, not 6552.
\<close>

theorem annualization_factor_codes:
  "annualization_factor ''D'' = Inr 252 \<and>
   annualization_factor ''B'' = Inr 252 \<and>
   annualization_factor ''H'' = Inr 1638 \<and>
   annualization_factor ''T'' = Inr 6552 \<and>
   annualization_factor ''15T'' = Inr 252"
  by (simp add: annualization_factor_Cons)

text \<open>
  C9: the factor depends on the first character of the frequency string only. A
  non-empty string whose first character is none of D, B, H, T gets the default 252,
  the multi-period code \<open>15T\<close> among them; the empty string raises IndexError.
\<close>

theorem annualization_factor_first_char:
  "annualization_factor (c # rest) = annualization_factor [c] \<and>
   (c \<notin> {CHR ''D'', CHR ''B'', CHR ''H'', CHR ''T''} \<longrightarrow>
      annualization_factor (c # rest) = Inr 252) \<and>
   annualization_factor [] = Inl IndexError"
  by (simp add: annualization_factor_Cons) (simp add: annualization_factor_def)

theorem annualization_factor_first_char_witness:
  "CHR ''1'' \<notin> {CHR ''D'', CHR ''B'', CHR ''H'', CHR ''T''} \<and>
   annualization_factor ''15T'' = annualization_factor ''1'' \<and>
   annualization_factor ''15T'' = Inr 252 \<and>
   annualization_factor [] = Inl IndexError"
proof -
  have "CHR ''1'' \<notin> {CHR ''D'', CHR ''B'', CHR ''H'', CHR ''T''}"
    by simp
  with annualization_factor_first_char [of "CHR ''1''" "''5T''"] show ?thesis
    by blast
qed

section \<open>Basic facts about the series operations\<close>

lemma length_fillna [simp]: "length (fillna v xs) = length xs"
  by (simp add: fillna_def)

lemma length_shift [simp]: "length (shift xs) = length xs"
  by (cases xs) (simp_all add: shift_def)

lemma length_ffill_from [simp]: "length (ffill_from prev xs) = length xs"
  by (induction xs arbitrary: prev) simp_all

lemma length_pct_change [simp]: "length (pct_change xs) = length xs"
  by (simp add: pct_change_def ffill_def Let_def)

lemma length_price_ret_of [simp]: "length (price_ret_of prices) = length prices"
  by (simp add: price_ret_of_def)

lemma length_strat_ret_of [simp]:
  "length (strat_ret_of signals price_ret) = min (length signals) (length price_ret)"
  by (simp add: strat_ret_of_def)

lemma length_cumprod_from [simp]: "length (cumprod_from acc xs) = length xs"
  by (induction xs arbitrary: acc) simp_all

lemma length_cummax_from [simp]: "length (cummax_from acc xs) = length xs"
  by (induction xs arbitrary: acc) simp_all

lemma length_equity_of [simp]: "length (equity_of strat_ret capital) = length strat_ret"
  by (simp add: equity_of_def cumprod_def)

lemma length_drawdown_of [simp]: "length (drawdown_of equity) = length equity"
  by (simp add: drawdown_of_def cummax_def Let_def)

lemma or_D_not_Nil: "or_D inferred \<noteq> []"
  by (simp add: or_D_def split: option.split)

lemma annualization_factor_or_D:
  "\<exists>f. annualization_factor (or_D inferred) = Inr f \<and> f \<in> {252, 1638, 6552}"
proof (cases "or_D inferred")
  case Nil
  then show ?thesis by (simp add: or_D_not_Nil)
next
  case (Cons c rest)
  then show ?thesis by (simp add: annualization_factor_Cons)
qed

lemma compute_performance_returns:
  assumes "cols df price_col = Some prices"
    and "cols df signal_col = Some signals"
    and "signal_col \<noteq> ''price_ret''"
    and "length signals = length prices"
    and "length (index df) = length prices"
    and "3 \<le> length prices"
    and "annualization_factor (or_D (inferer (index df))) = Inr f"
  shows "compute_performance inferer df signal_col price_col capital =
     (let price_ret = price_ret_of prices;
          strat_ret = strat_ret_of signals price_ret;
          equity = equity_of strat_ret capital
      in (setitem (setitem (setitem df ''price_ret'' price_ret) ''strat_ret'' strat_ret) ''equity'' equity,
          Inr \<lparr>total_return = f64_sub (f64_div (last equity) capital) (Fin 1),
               annual_return = ann_ret_of (mean strat_ret) f,
               annual_volatility = ann_vol_of (std strat_ret) f,
               sharpe_ratio = sharpe_of (mean strat_ret) (std strat_ret) f,
               max_drawdown = max_dd_of equity,
               equity_series = equity,
               returns_series = strat_ret\<rparr>))"
proof -
  have ne: "equity_of (strat_ret_of signals (price_ret_of prices)) capital \<noteq> []"
    using assms(4,6) by (auto simp flip: length_0_conv)
  show ?thesis
    using assms ne
    by (simp add: compute_performance_def getitem_def setitem_def iloc_last_def
        infer_freq_def Let_def)
qed

lemma f64_div_NaN_right [simp]: "f64_div x NaN = NaN"
  by (cases x) simp_all

lemma f64_mul_NaN_right [simp]: "f64_mul x NaN = NaN"
  by (cases x) simp_all

lemma f64_add_NaN_right [simp]: "f64_add x NaN = NaN"
  by (cases x) simp_all

lemma f64_sub_NaN_left [simp]: "f64_sub NaN y = NaN"
  by (simp add: f64_sub_def)

lemma f64_sub_Fin [simp]: "f64_sub (Fin a) (Fin b) = Fin (a - b)"
  by (simp add: f64_sub_def)

lemma f64_mul_one_left [simp]: "f64_mul (Fin 1) x = x"
  by (cases x) (simp_all add: signed_inf_def)

lemma shift_nth:
  "i < length xs \<Longrightarrow> shift xs ! i = (if i = 0 then NaN else xs ! (i - 1))"
  by (cases xs) (auto simp: shift_def nth_Cons' nth_butlast)

lemma fillna_nth:
  "i < length xs \<Longrightarrow> fillna v xs ! i = (if xs ! i = NaN then Fin v else xs ! i)"
  by (simp add: fillna_def)

lemma pct_change_0: "xs \<noteq> [] \<Longrightarrow> pct_change xs ! 0 = NaN"
  by (cases xs) (simp_all add: pct_change_def Let_def shift_def ffill_def)

lemma price_ret_of_0: "prices \<noteq> [] \<Longrightarrow> price_ret_of prices ! 0 = Fin 0"
  by (simp add: price_ret_of_def fillna_nth pct_change_0)

lemma strat_ret_of_nth:
  assumes "i < length signals" and "i < length price_ret"
  shows "strat_ret_of signals price_ret ! i =
     f64_mul (if i = 0 \<or> signals ! (i - 1) = NaN then Fin 0 else signals ! (i - 1))
       (price_ret ! i)"
  using assms by (auto simp: strat_ret_of_def fillna_nth shift_nth)

lemma strat_ret_of_0:
  assumes "length signals = length prices" and "prices \<noteq> []"
  shows "strat_ret_of signals (price_ret_of prices) ! 0 = Fin 0"
  using assms by (simp add: strat_ret_of_nth price_ret_of_0)

lemma compute_performance_strat_ret:
  assumes "cols df price_col = Some prices"
    and "cols df signal_col = Some signals"
    and "signal_col \<noteq> ''price_ret''"
  shows "cols (fst (compute_performance inferer df signal_col price_col capital)) ''strat_ret''
       = Some (strat_ret_of signals (price_ret_of prices))"
  using assms
  by (simp add: compute_performance_def getitem_def setitem_def Let_def
      split: sum.split)

lemma compute_performance_equity:
  assumes "cols df price_col = Some prices"
    and "cols df signal_col = Some signals"
    and "signal_col \<noteq> ''price_ret''"
  shows "cols (fst (compute_performance inferer df signal_col price_col capital)) ''equity''
       = Some (equity_of (strat_ret_of signals (price_ret_of prices)) capital)"
  using assms
  by (simp add: compute_performance_def getitem_def setitem_def Let_def
      split: sum.split)

lemma compute_performance_series:
  assumes "cols df price_col = Some prices"
    and "cols df signal_col = Some signals"
    and "signal_col \<noteq> ''price_ret''"
    and "snd (compute_performance inferer df signal_col price_col capital) = Inr r"
  shows "returns_series r = strat_ret_of signals (price_ret_of prices) \<and>
         equity_series r = equity_of (returns_series r) capital \<and>
         max_drawdown r = max_dd_of (equity_series r)"
  using assms
  by (auto simp: compute_performance_def getitem_def setitem_def Let_def
      split: sum.splits)

section \<open>The concrete frames and the lag rule\<close>

lemma frame_cols [simp]:
  "cols (frame idx prices signals) ''Close'' = Some prices"
  "cols (frame idx prices signals) ''signal'' = Some signals"
  "index (frame idx prices signals) = idx"
  by (simp_all add: frame_def)

lemma strat_ret_single_signal:
  assumes "length signals = length prices"
    and "\<forall>j<length signals. j \<noteq> k \<longrightarrow> signals ! j = Fin 0"
    and "i < length prices" and "i \<noteq> k + 1"
  shows "strat_ret_of signals (price_ret_of prices) ! i =
         f64_mul (Fin 0) (price_ret_of prices ! i)"
proof (cases "i = 0")
  case True
  with assms show ?thesis by (simp add: strat_ret_of_nth)
next
  case False
  with assms have "signals ! (i - 1) = Fin 0" by simp
  with assms False show ?thesis by (simp add: strat_ret_of_nth)
qed

text \<open>
  C1, as the code has it. For a frame that holds the price and the signal column,
  aligned: the \<open>strat_ret\<close> column the call assigns, which is the
  \<open>returns_series\<close> it returns, is as long as the prices; it is 0 at index 0; at
  every index \<open>i >= 1\<close> it is \<open>signal[i-1] * price_ret[i]\<close>, for a signal that
  is not missing (a missing one counts as 0). So for a signal series whose entries
  other than the one at \<open>k\<close> are all 0, the strategy return at every index other
  than \<open>k + 1\<close> is 0 where the price return is finite, and not-a-number
  (0 times an infinity) where the price return is infinite.
\<close>

theorem lag_rule:
  assumes "cols df price_col = Some prices"
    and "cols df signal_col = Some signals"
    and "signal_col \<noteq> ''price_ret''"
    and "length signals = length prices"
  shows "\<exists>strat_ret.
      cols (fst (compute_performance inferer df signal_col price_col capital)) ''strat_ret''
        = Some strat_ret \<and>
      (\<forall>r. snd (compute_performance inferer df signal_col price_col capital) = Inr r
         \<longrightarrow> returns_series r = strat_ret) \<and>
      length strat_ret = length prices \<and>
      (prices \<noteq> [] \<longrightarrow> strat_ret ! 0 = Fin 0) \<and>
      (\<forall>i. 1 \<le> i \<and> i < length prices \<and> signals ! (i - 1) \<noteq> NaN \<longrightarrow>
         strat_ret ! i = f64_mul (signals ! (i - 1)) (price_ret_of prices ! i)) \<and>
      (\<forall>k i. (\<forall>j<length signals. j \<noteq> k \<longrightarrow> signals ! j = Fin 0) \<and>
         i < length prices \<and> i \<noteq> k + 1 \<longrightarrow>
         (is_finite (price_ret_of prices ! i) \<longrightarrow> strat_ret ! i = Fin 0) \<and>
         (price_ret_of prices ! i \<in> {PInf, NInf} \<longrightarrow> strat_ret ! i = NaN))"
proof -
  let ?sr = "strat_ret_of signals (price_ret_of prices)"
  have col: "cols (fst (compute_performance inferer df signal_col price_col capital))
      ''strat_ret'' = Some ?sr"
    using assms(1-3) by (rule compute_performance_strat_ret)
  have res: "\<forall>r. snd (compute_performance inferer df signal_col price_col capital) = Inr r
         \<longrightarrow> returns_series r = ?sr"
    using compute_performance_series [OF assms(1-3)] by blast
  have len: "length ?sr = length prices"
    using assms(4) by simp
  have first: "prices \<noteq> [] \<longrightarrow> ?sr ! 0 = Fin 0"
    using assms(4) by (simp add: strat_ret_of_0)
  have lag: "\<forall>i. 1 \<le> i \<and> i < length prices \<and> signals ! (i - 1) \<noteq> NaN \<longrightarrow>
         ?sr ! i = f64_mul (signals ! (i - 1)) (price_ret_of prices ! i)"
    using assms(4) by (simp add: strat_ret_of_nth)
  have single: "\<forall>k i. (\<forall>j<length signals. j \<noteq> k \<longrightarrow> signals ! j = Fin 0) \<and>
         i < length prices \<and> i \<noteq> k + 1 \<longrightarrow>
         (is_finite (price_ret_of prices ! i) \<longrightarrow> ?sr ! i = Fin 0) \<and>
         (price_ret_of prices ! i \<in> {PInf, NInf} \<longrightarrow> ?sr ! i = NaN)"
    using strat_ret_single_signal [OF assms(4)] by (auto elim: is_finite.elims)
  from col res len first lag single show ?thesis by blast
qed

text \<open>
  The prices 0, 1, 1 make the second price return infinite. With the signals 0, 0, 1,
  whose only nonzero entry is at index 2, the strategy return at index 1 is
  not-a-number, not 0.
\<close>

theorem lag_rule_zero_price:
  "cols (fst (compute_performance (\<lambda>_. None)
      (frame [0, 1, 2] [Fin 0, Fin 1, Fin 1] [Fin 0, Fin 0, Fin 1])
      ''signal'' ''Close'' (Fin 1))) ''strat_ret'' = Some [Fin 0, NaN, Fin 0] \<and>
   map_sum id returns_series (snd (compute_performance (\<lambda>_. None)
      (frame [0, 1, 2] [Fin 0, Fin 1, Fin 1] [Fin 0, Fin 0, Fin 1])
      ''signal'' ''Close'' (Fin 1))) = Inr [Fin 0, NaN, Fin 0]"
proof -
  have f: "annualization_factor (or_D ((\<lambda>_. None) (index (frame [0, 1, 2]
      [Fin 0, Fin 1, Fin 1] [Fin 0, Fin 0, Fin 1])))) = Inr 252"
    by (simp add: or_D_def annualization_factor_Cons)
  have sr: "strat_ret_of [Fin 0, Fin 0, Fin 1] (price_ret_of [Fin 0, Fin 1, Fin 1])
      = [Fin 0, NaN, Fin 0]"
    by (simp add: strat_ret_of_def price_ret_of_def pct_change_def ffill_def shift_def
        fillna_def signed_inf_def f64_sub_def)
  show ?thesis
    by (simp add: compute_performance_returns [OF _ _ _ _ _ _ f] sr Let_def setitem_def)
qed

lemma list3_eqI:
  assumes "length xs = 3" and "xs ! 0 = a" and "xs ! 1 = b" and "xs ! 2 = c"
  shows "xs = [a, b, c]"
proof -
  from assms(1) obtain x y z where "xs = [x, y, z]"
    by (auto simp: numeral_3_eq_3 length_Suc_conv)
  with assms(2-4) show ?thesis by simp
qed

text \<open>
  The lag rule at the prices 100, 110, 121 and the signals 0, 1, 0, whose only nonzero
  entry is at index 1: the strategy returns are 0, 0 and the price return of index 2.
\<close>

theorem lag_rule_witness:
  "cols (frame [0, 1, 2] [Fin 100, Fin 110, Fin 121] [Fin 0, Fin 1, Fin 0]) ''Close''
     = Some [Fin 100, Fin 110, Fin 121] \<and>
   cols (frame [0, 1, 2] [Fin 100, Fin 110, Fin 121] [Fin 0, Fin 1, Fin 0]) ''signal''
     = Some [Fin 0, Fin 1, Fin 0] \<and>
   ''signal'' \<noteq> ''price_ret'' \<and>
   length [Fin 0, Fin 1, Fin 0] = length [Fin 100, Fin 110, Fin 121] \<and>
   cols (fst (compute_performance (\<lambda>_. None)
      (frame [0, 1, 2] [Fin 100, Fin 110, Fin 121] [Fin 0, Fin 1, Fin 0])
      ''signal'' ''Close'' (Fin 1))) ''strat_ret'' = Some [Fin 0, Fin 0, Fin (1 / 10)]"
proof -
  let ?P = "[Fin 100, Fin 110, Fin 121]" and ?S = "[Fin 0, Fin 1, Fin 0]"
  let ?df = "frame [0, 1, 2] ?P ?S"
  have h1: "cols ?df ''Close'' = Some ?P" and h2: "cols ?df ''signal'' = Some ?S"
    and h3: "''signal'' \<noteq> ''price_ret''" and h4: "length ?S = length ?P"
    by simp_all
  have pr: "price_ret_of ?P = [Fin 0, Fin (1 / 10), Fin (1 / 10)]"
    by (simp add: price_ret_of_def pct_change_def ffill_def shift_def fillna_def)
  from lag_rule [OF h1 h2 h3 h4, of "\<lambda>_. None" "Fin 1"] obtain sr where
    col: "cols (fst (compute_performance (\<lambda>_. None) ?df ''signal'' ''Close'' (Fin 1)))
      ''strat_ret'' = Some sr"
    and len: "length sr = length ?P"
    and first: "?P \<noteq> [] \<longrightarrow> sr ! 0 = Fin 0"
    and lag: "\<forall>i. 1 \<le> i \<and> i < length ?P \<and> ?S ! (i - 1) \<noteq> NaN \<longrightarrow>
         sr ! i = f64_mul (?S ! (i - 1)) (price_ret_of ?P ! i)"
    and single: "\<forall>k i. (\<forall>j<length ?S. j \<noteq> k \<longrightarrow> ?S ! j = Fin 0) \<and>
         i < length ?P \<and> i \<noteq> k + 1 \<longrightarrow>
         (is_finite (price_ret_of ?P ! i) \<longrightarrow> sr ! i = Fin 0) \<and>
         (price_ret_of ?P ! i \<in> {PInf, NInf} \<longrightarrow> sr ! i = NaN)"
    by blast
  have s0: "sr ! 0 = Fin 0" using first by simp
  have s2: "sr ! 2 = Fin (1 / 10)" using lag [rule_format, of 2] by (simp add: pr)
  have only: "\<forall>j<length ?S. j \<noteq> 1 \<longrightarrow> ?S ! j = Fin 0"
    by (simp add: nth_Cons' less_Suc_eq)
  have s1: "sr ! 1 = Fin 0"
    using single [rule_format, of 1 1] only by (simp add: pr)
  have "sr = [Fin 0, Fin 0, Fin (1 / 10)]"
    using len s0 s1 s2 by (intro list3_eqI) simp_all
  with col h1 h2 h3 h4 show ?thesis by simp
qed

section \<open>The concrete scenario\<close>

lemmas series_eval =
  price_ret_of_def pct_change_def ffill_def shift_def fillna_def strat_ret_of_def
  equity_of_def cumprod_def drawdown_of_def max_dd_of_def cummax_def series_min_def
  dropna_def f64_max_def f64_min_def signed_inf_def f64_sub_def

lemma compute_performance_frame:
  assumes "length signals = length prices"
    and "length idx = length prices"
    and "3 \<le> length prices"
    and "annualization_factor (or_D (inferer idx)) = Inr f"
  shows "compute_performance inferer (frame idx prices signals) ''signal'' ''Close'' capital =
     (let price_ret = price_ret_of prices;
          strat_ret = strat_ret_of signals price_ret;
          equity = equity_of strat_ret capital
      in (setitem (setitem (setitem (frame idx prices signals) ''price_ret'' price_ret)
            ''strat_ret'' strat_ret) ''equity'' equity,
          Inr \<lparr>total_return = f64_sub (f64_div (last equity) capital) (Fin 1),
               annual_return = ann_ret_of (mean strat_ret) f,
               annual_volatility = ann_vol_of (std strat_ret) f,
               sharpe_ratio = sharpe_of (mean strat_ret) (std strat_ret) f,
               max_drawdown = max_dd_of equity,
               equity_series = equity,
               returns_series = strat_ret\<rparr>))"
  using assms
  by (intro compute_performance_returns) simp_all

lemma scenario_series:
  "strat_ret_of [Fin 1, Fin 1, Fin (- 1), Fin 0, Fin 0]
     (price_ret_of [Fin 100, Fin 110, Fin 99, Fin 99, Fin (1089 / 10)])
     = [Fin 0, Fin (1 / 10), Fin (- (1 / 10)), Fin 0, Fin 0]"
  "equity_of [Fin 0, Fin (1 / 10), Fin (- (1 / 10)), Fin 0, Fin 0] (Fin 1)
     = [Fin 1, Fin (11 / 10), Fin (99 / 100), Fin (99 / 100), Fin (99 / 100)]"
  "max_dd_of [Fin 1, Fin (11 / 10), Fin (99 / 100), Fin (99 / 100), Fin (99 / 100)]
     = Fin (- (1 / 10))"
  by (simp_all add: series_eval)

text \<open>
  C2, as the code has it. On the prices 100, 110, 99, 99, 108.9 with the signals
  1, 1, -1, 0, 0 and the starting capital 1, whatever the five dates and the frequency
  inferred from them, the call returns the equity curve 1, 1.1, 0.99, 0.99, 0.99, the
  total return -0.01 and the maximum drawdown -0.10: the signal 1 of index 0 earns the
  price return 0.10 of index 1.
\<close>

theorem concrete_scenario:
  assumes "length idx = 5"
  shows "\<exists>r. snd (compute_performance inferer
        (frame idx [Fin 100, Fin 110, Fin 99, Fin 99, Fin (1089 / 10)]
           [Fin 1, Fin 1, Fin (- 1), Fin 0, Fin 0])
        ''signal'' ''Close'' (Fin 1)) = Inr r \<and>
      returns_series r = [Fin 0, Fin (1 / 10), Fin (- (1 / 10)), Fin 0, Fin 0] \<and>
      equity_series r = [Fin 1, Fin (11 / 10), Fin (99 / 100), Fin (99 / 100), Fin (99 / 100)] \<and>
      total_return r = Fin (- (1 / 100)) \<and>
      max_drawdown r = Fin (- (1 / 10))"
proof -
  obtain f where f: "annualization_factor (or_D (inferer idx)) = Inr f"
    using annualization_factor_or_D by blast
  show ?thesis
    using assms
    by (simp add: compute_performance_frame [where inferer = inferer and idx = idx and f = f]
        f scenario_series Let_def)
qed

text \<open>The scenario on five consecutive dates, with the frequency inferred as daily.\<close>

theorem concrete_scenario_witness:
  "length [0, 1, 2, 3, 4 :: timestamp] = 5 \<and>
   map_sum id max_drawdown (snd (compute_performance (\<lambda>_. Some ''D'')
        (frame [0, 1, 2, 3, 4] [Fin 100, Fin 110, Fin 99, Fin 99, Fin (1089 / 10)]
           [Fin 1, Fin 1, Fin (- 1), Fin 0, Fin 0])
        ''signal'' ''Close'' (Fin 1))) = Inr (Fin (- (1 / 10)))"
proof -
  have h: "length [0, 1, 2, 3, 4 :: timestamp] = 5" by simp
  from concrete_scenario [OF h, of "\<lambda>_. Some ''D''"] show ?thesis
    by auto
qed

text \<open>
  The values the specification gives for the scenario are not those of the code: the equity at index 1
  is 1.1, not 1.0, and the total return is -0.01, not -0.10.
\<close>

theorem concrete_scenario_claimed_values:
  "map_sum id equity_series (snd (compute_performance (\<lambda>_. Some ''D'')
        (frame [0, 1, 2, 3, 4] [Fin 100, Fin 110, Fin 99, Fin 99, Fin (1089 / 10)]
           [Fin 1, Fin 1, Fin (- 1), Fin 0, Fin 0])
        ''signal'' ''Close'' (Fin 1)))
     \<noteq> Inr [Fin 1, Fin 1, Fin (9 / 10), Fin (9 / 10), Fin (9 / 10)] \<and>
   map_sum id total_return (snd (compute_performance (\<lambda>_. Some ''D'')
        (frame [0, 1, 2, 3, 4] [Fin 100, Fin 110, Fin 99, Fin 99, Fin (1089 / 10)]
           [Fin 1, Fin 1, Fin (- 1), Fin 0, Fin 0])
        ''signal'' ''Close'' (Fin 1)))
     \<noteq> Inr (Fin (- (1 / 10)))"
proof -
  have f: "annualization_factor (or_D ((\<lambda>_. Some ''D'') [0, 1, 2, 3, 4])) = Inr 252"
    by (simp add: or_D_def annualization_factor_Cons)
  show ?thesis
    by (simp add: compute_performance_frame [where inferer = "\<lambda>_. Some ''D''" and f = 252]
        f scenario_series Let_def)
qed

section \<open>Zero signals\<close>


lemma f64_mul_zero_finite: "is_finite x \<Longrightarrow> f64_mul (Fin 0) x = Fin 0"
  by (cases x) simp_all

lemma strat_ret_zero_signals:
  assumes "length signals = length prices"
    and "\<forall>s\<in>set signals. s = Fin 0"
    and "\<forall>i<length prices. is_finite (price_ret_of prices ! i)"
  shows "strat_ret_of signals (price_ret_of prices) = replicate (length prices) (Fin 0)"
proof (rule nth_equalityI)
  show "length (strat_ret_of signals (price_ret_of prices))
      = length (replicate (length prices) (Fin 0))"
    using assms(1) by simp
next
  fix i assume "i < length (strat_ret_of signals (price_ret_of prices))"
  with assms(1) have i: "i < length prices" by simp
  have "i \<noteq> 0 \<Longrightarrow> signals ! (i - 1) = Fin 0"
    using assms(1,2) i by simp
  then have "(if i = 0 \<or> signals ! (i - 1) = NaN then Fin 0 else signals ! (i - 1)) = Fin 0"
    by auto
  with assms i show "strat_ret_of signals (price_ret_of prices) ! i
      = replicate (length prices) (Fin 0) ! i"
    by (simp add: strat_ret_of_nth f64_mul_zero_finite)
qed

lemma cumprod_from_ones:
  "cumprod_from (Fin 1) (replicate n (Fin 1)) = replicate n (Fin 1)"
  by (induction n) simp_all

lemma equity_of_zero_returns:
  "equity_of (replicate n (Fin 0)) capital = replicate n capital"
  by (simp add: equity_of_def cumprod_def cumprod_from_ones)

lemma cummax_from_const:
  "cummax_from (Fin c) (replicate n (Fin c)) = replicate n (Fin c)"
  by (induction n) (simp_all add: f64_max_def)

lemma cummax_const: "cummax (replicate n (Fin c)) = replicate n (Fin c)"
  by (cases n) (simp_all add: cummax_def f64_max_def cummax_from_const)

lemma map2_replicate:
  "map2 f (replicate n x) (replicate n y) = replicate n (f x y)"
  by (induction n) simp_all

lemma drawdown_of_const:
  "c \<noteq> 0 \<Longrightarrow> drawdown_of (replicate n (Fin c)) = replicate n (Fin 0)"
  by (simp add: drawdown_of_def cummax_const map2_replicate)

lemma foldl_f64_min_zeros: "foldl f64_min (Fin 0) (replicate n (Fin 0)) = Fin 0"
  by (induction n) (simp_all add: f64_min_def)

lemma series_min_zeros: "0 < n \<Longrightarrow> series_min (replicate n (Fin 0)) = Fin 0"
  by (cases n) (simp_all add: series_min_def dropna_def foldl_f64_min_zeros)

lemma max_dd_of_const:
  "c \<noteq> 0 \<Longrightarrow> 0 < n \<Longrightarrow> max_dd_of (replicate n (Fin c)) = Fin 0"
  by (simp add: max_dd_of_def drawdown_of_const series_min_zeros)

lemma compute_performance_nonempty:
  assumes "snd (compute_performance inferer df signal_col price_col capital) = Inr r"
  shows "equity_series r \<noteq> []"
  using assms
  by (auto simp: compute_performance_def iloc_last_def Let_def
      split: sum.splits if_splits)

lemma compute_performance_total:
  assumes "cols df price_col = Some prices"
    and "cols df signal_col = Some signals"
    and "signal_col \<noteq> ''price_ret''"
    and "length signals = length prices"
    and "length (index df) = length prices"
    and "3 \<le> length prices"
  shows "\<exists>r. snd (compute_performance inferer df signal_col price_col capital) = Inr r"
proof -
  obtain f where f: "annualization_factor (or_D (inferer (index df))) = Inr f"
    using annualization_factor_or_D by blast
  show ?thesis
    using compute_performance_returns [where inferer = inferer and f = f, OF assms f]
    by (simp add: Let_def)
qed

text \<open>
  C6, as the code has it. For a frame that holds the price and the signal column,
  aligned, with every signal 0 and every price return the call computes finite (no
  prior price of 0, no quotient too large for a float): the equity column the call
  assigns is the starting capital at every index, whatever the capital; the call
  returns when the frame is indexed by three dates or more; and what it returns is
  that equity series, with the maximum drawdown 0 when the capital is finite and
  not 0.
\<close>

theorem zero_signal:
  assumes "cols df price_col = Some prices"
    and "cols df signal_col = Some signals"
    and "signal_col \<noteq> ''price_ret''"
    and "length signals = length prices"
    and "\<forall>s\<in>set signals. s = Fin 0"
    and "\<forall>i<length prices. is_finite (price_ret_of prices ! i)"
  shows "cols (fst (compute_performance inferer df signal_col price_col capital)) ''equity''
        = Some (replicate (length prices) capital) \<and>
      (length (index df) = length prices \<and> 3 \<le> length prices \<longrightarrow>
         (\<exists>r. snd (compute_performance inferer df signal_col price_col capital) = Inr r)) \<and>
      (\<forall>r. snd (compute_performance inferer df signal_col price_col capital) = Inr r \<longrightarrow>
         equity_series r = replicate (length prices) capital \<and>
         (\<forall>i<length prices. equity_series r ! i = capital) \<and>
         (is_finite capital \<and> capital \<noteq> Fin 0 \<longrightarrow> max_drawdown r = Fin 0))"
proof -
  let ?run = "compute_performance inferer df signal_col price_col capital"
  have sr: "strat_ret_of signals (price_ret_of prices) = replicate (length prices) (Fin 0)"
    using assms(4,5,6) by (rule strat_ret_zero_signals)
  have col: "cols (fst ?run) ''equity'' = Some (replicate (length prices) capital)"
    using compute_performance_equity [OF assms(1-3)] by (simp add: sr equity_of_zero_returns)
  have ret: "\<exists>r. snd ?run = Inr r"
    if "length (index df) = length prices" and "3 \<le> length prices"
    using compute_performance_total [OF assms(1-4) that] .
  have res: "equity_series r = replicate (length prices) capital \<and>
         (\<forall>i<length prices. equity_series r ! i = capital) \<and>
         (is_finite capital \<and> capital \<noteq> Fin 0 \<longrightarrow> max_drawdown r = Fin 0)"
    if r: "snd ?run = Inr r" for r
  proof -
    from compute_performance_series [OF assms(1-3) r]
    have eq: "equity_series r = replicate (length prices) capital"
      and dd: "max_drawdown r = max_dd_of (equity_series r)"
      by (simp_all add: sr equity_of_zero_returns)
    from compute_performance_nonempty [OF r] eq have pos: "0 < length prices" by simp
    have "max_drawdown r = Fin 0" if "is_finite capital" and "capital \<noteq> Fin 0"
    proof -
      from that obtain c where "capital = Fin c" and "c \<noteq> 0"
        by (cases capital) simp_all
      with dd eq pos show ?thesis by (simp add: max_dd_of_const)
    qed
    with eq show ?thesis by simp
  qed
  from col ret res show ?thesis by blast
qed

text \<open>
  Zero signals on the prices 100, 110, 121, whose price returns are 0, 0.1 and 0.1,
  with the starting capital 5.
\<close>

theorem zero_signal_witness:
  "cols (frame [0, 1, 2] [Fin 100, Fin 110, Fin 121] [Fin 0, Fin 0, Fin 0]) ''Close''
     = Some [Fin 100, Fin 110, Fin 121] \<and>
   cols (frame [0, 1, 2] [Fin 100, Fin 110, Fin 121] [Fin 0, Fin 0, Fin 0]) ''signal''
     = Some [Fin 0, Fin 0, Fin 0] \<and>
   ''signal'' \<noteq> ''price_ret'' \<and>
   length [Fin 0, Fin 0, Fin 0] = length [Fin 100, Fin 110, Fin 121] \<and>
   list_all (\<lambda>s. s = Fin 0) [Fin 0, Fin 0, Fin 0] \<and>
   price_ret_of [Fin 100, Fin 110, Fin 121] = [Fin 0, Fin (1 / 10), Fin (1 / 10)] \<and>
   list_all is_finite (price_ret_of [Fin 100, Fin 110, Fin 121]) \<and>
   length (index (frame [0, 1, 2] [Fin 100, Fin 110, Fin 121] [Fin 0, Fin 0, Fin 0])) = 3 \<and>
   is_finite (Fin 5) \<and> Fin 5 \<noteq> Fin 0 \<and>
   map_sum id equity_series (snd (compute_performance (\<lambda>_. None)
      (frame [0, 1, 2] [Fin 100, Fin 110, Fin 121] [Fin 0, Fin 0, Fin 0])
      ''signal'' ''Close'' (Fin 5))) = Inr [Fin 5, Fin 5, Fin 5] \<and>
   map_sum id max_drawdown (snd (compute_performance (\<lambda>_. None)
      (frame [0, 1, 2] [Fin 100, Fin 110, Fin 121] [Fin 0, Fin 0, Fin 0])
      ''signal'' ''Close'' (Fin 5))) = Inr (Fin 0)"
proof -
  let ?P = "[Fin 100, Fin 110, Fin 121]" and ?S = "[Fin 0, Fin 0, Fin 0]"
  let ?df = "frame [0, 1, 2] ?P ?S"
  let ?run = "compute_performance (\<lambda>_. None) ?df ''signal'' ''Close'' (Fin 5)"
  have pr: "price_ret_of ?P = [Fin 0, Fin (1 / 10), Fin (1 / 10)]"
    by (simp add: series_eval)
  have h1: "cols ?df ''Close'' = Some ?P" and h2: "cols ?df ''signal'' = Some ?S"
    and h3: "''signal'' \<noteq> ''price_ret''" and h4: "length ?S = length ?P"
    and h5: "\<forall>s\<in>set ?S. s = Fin 0"
    by simp_all
  have h6: "\<forall>i<length ?P. is_finite (price_ret_of ?P ! i)"
    by (simp add: pr nth_Cons' less_Suc_eq numeral_3_eq_3)
  from zero_signal [OF h1 h2 h3 h4 h5 h6, of "\<lambda>_. None" "Fin 5"]
  have ret: "\<exists>r. snd ?run = Inr r"
    and res: "\<forall>r. snd ?run = Inr r \<longrightarrow>
         equity_series r = replicate (length ?P) (Fin 5) \<and>
         (is_finite (Fin 5) \<and> Fin 5 \<noteq> Fin 0 \<longrightarrow> max_drawdown r = Fin 0)"
    by simp_all
  from ret obtain r where r: "snd ?run = Inr r" by blast
  with res have "equity_series r = [Fin 5, Fin 5, Fin 5]" and "max_drawdown r = Fin 0"
    by (simp_all add: numeral_3_eq_3)
  with r pr show ?thesis by simp
qed

text \<open>
  A price of 0 makes the next price return infinite and the strategy return
  not-a-number, although every signal is 0: the equity at index 1 is not the capital.
  And with the starting capital 0 every drawdown is 0 / 0, so the maximum drawdown is
  not-a-number.
\<close>

theorem zero_signal_zero_price:
  "map_sum id equity_series (snd (compute_performance (\<lambda>_. None)
      (frame [0, 1, 2] [Fin 0, Fin 1, Fin 1] [Fin 0, Fin 0, Fin 0])
      ''signal'' ''Close'' (Fin 1))) = Inr [Fin 1, NaN, Fin 1] \<and>
   map_sum id max_drawdown (snd (compute_performance (\<lambda>_. None)
      (frame [0, 1, 2] [Fin 100, Fin 110, Fin 121] [Fin 0, Fin 0, Fin 0])
      ''signal'' ''Close'' (Fin 0))) = Inr NaN"
proof -
  have f: "annualization_factor (or_D ((\<lambda>_. None) [0, 1, 2 :: timestamp])) = Inr 252"
    by (simp add: or_D_def annualization_factor_Cons)
  have e1: "equity_of (strat_ret_of [Fin 0, Fin 0, Fin 0] (price_ret_of [Fin 0, Fin 1, Fin 1]))
      (Fin 1) = [Fin 1, NaN, Fin 1]"
    by (simp add: series_eval)
  have e2: "max_dd_of (equity_of (strat_ret_of [Fin 0, Fin 0, Fin 0]
      (price_ret_of [Fin 100, Fin 110, Fin 121])) (Fin 0)) = NaN"
    by (simp add: series_eval)
  show ?thesis
    by (simp add: compute_performance_frame [where inferer = "\<lambda>_. None" and f = 252]
        f e1 e2 Let_def)
qed

section \<open>A prior price of zero\<close>








lemma compute_performance_price_ret:
  assumes "cols df price_col = Some prices"
  shows "cols (fst (compute_performance inferer df signal_col price_col capital)) ''price_ret''
       = Some (price_ret_of prices)"
  using assms
  by (simp add: compute_performance_def getitem_def setitem_def Let_def
      split: sum.split)






section \<open>What the call does to the caller's frame\<close>

lemma compute_performance_index:
  "index (fst (compute_performance inferer df signal_col price_col capital)) = index df"
  by (simp add: compute_performance_def getitem_def setitem_def Let_def
      split: sum.split option.split)

lemma compute_performance_other_cols:
  assumes "c \<noteq> ''price_ret''" and "c \<noteq> ''strat_ret''" and "c \<noteq> ''equity''"
  shows "cols (fst (compute_performance inferer df signal_col price_col capital)) c
       = cols df c"
  using assms
  by (simp add: compute_performance_def getitem_def setitem_def Let_def
      split: sum.split option.split)

lemma compute_performance_result_cols:
  assumes "snd (compute_performance inferer df signal_col price_col capital) = Inr r"
  shows "cols (fst (compute_performance inferer df signal_col price_col capital)) ''strat_ret''
       = Some (returns_series r) \<and>
     cols (fst (compute_performance inferer df signal_col price_col capital)) ''equity''
       = Some (equity_series r) \<and>
     cols (fst (compute_performance inferer df signal_col price_col capital)) ''price_ret''
       \<noteq> None"
  using assms
  by (auto simp: compute_performance_def getitem_def setitem_def Let_def
      split: sum.splits option.splits)

text \<open>
  C8, as the code has it. The call leaves the index of the caller's frame and every
  column not named \<open>price_ret\<close>, \<open>strat_ret\<close> or \<open>equity\<close> as they were, whether it
  returns or raises: the price and the signal column are unchanged unless they bear
  one of these names. It does edit the frame in place: when it returns, the frame
  holds the three columns, and the return and equity series of the result are the
  columns \<open>strat_ret\<close> and \<open>equity\<close> of the caller's frame.
\<close>

theorem frame_effect:
  "index (fst (compute_performance inferer df signal_col price_col capital)) = index df \<and>
   (\<forall>c. c \<notin> {''price_ret'', ''strat_ret'', ''equity''} \<longrightarrow>
      cols (fst (compute_performance inferer df signal_col price_col capital)) c = cols df c) \<and>
   (\<forall>r. snd (compute_performance inferer df signal_col price_col capital) = Inr r \<longrightarrow>
      cols (fst (compute_performance inferer df signal_col price_col capital)) ''strat_ret''
        = Some (returns_series r) \<and>
      cols (fst (compute_performance inferer df signal_col price_col capital)) ''equity''
        = Some (equity_series r) \<and>
      cols (fst (compute_performance inferer df signal_col price_col capital)) ''price_ret''
        \<noteq> None)"
  using compute_performance_index compute_performance_other_cols
    compute_performance_result_cols
  by (intro conjI allI impI) auto

text \<open>
  The frame effect on the prices 100, 110, 121 with the signals 0, 1, 0: the columns
  \<open>Close\<close> and \<open>signal\<close> stay, and the equity series returned is the new column
  \<open>equity\<close>.
\<close>

theorem frame_effect_witness:
  "''Close'' \<notin> {''price_ret'', ''strat_ret'', ''equity''} \<and>
   ''signal'' \<notin> {''price_ret'', ''strat_ret'', ''equity''} \<and>
   cols (fst (compute_performance (\<lambda>_. None)
      (frame [0, 1, 2] [Fin 100, Fin 110, Fin 121] [Fin 0, Fin 1, Fin 0])
      ''signal'' ''Close'' (Fin 1))) ''Close'' = Some [Fin 100, Fin 110, Fin 121] \<and>
   cols (fst (compute_performance (\<lambda>_. None)
      (frame [0, 1, 2] [Fin 100, Fin 110, Fin 121] [Fin 0, Fin 1, Fin 0])
      ''signal'' ''Close'' (Fin 1))) ''signal'' = Some [Fin 0, Fin 1, Fin 0] \<and>
   map_sum id (\<lambda>r. Some (equity_series r)) (snd (compute_performance (\<lambda>_. None)
      (frame [0, 1, 2] [Fin 100, Fin 110, Fin 121] [Fin 0, Fin 1, Fin 0])
      ''signal'' ''Close'' (Fin 1)))
     = Inr (cols (fst (compute_performance (\<lambda>_. None)
      (frame [0, 1, 2] [Fin 100, Fin 110, Fin 121] [Fin 0, Fin 1, Fin 0])
      ''signal'' ''Close'' (Fin 1))) ''equity'')"
proof -
  let ?df = "frame [0, 1, 2] [Fin 100, Fin 110, Fin 121] [Fin 0, Fin 1, Fin 0]"
  let ?run = "compute_performance (\<lambda>_. None) ?df ''signal'' ''Close'' (Fin 1)"
  have n: "''Close'' \<notin> {''price_ret'', ''strat_ret'', ''equity''}"
    "''signal'' \<notin> {''price_ret'', ''strat_ret'', ''equity''}"
    by simp_all
  from frame_effect [of "\<lambda>_. None" ?df "''signal''" "''Close''" "Fin 1"]
  have keep: "\<forall>c. c \<notin> {''price_ret'', ''strat_ret'', ''equity''} \<longrightarrow>
      cols (fst ?run) c = cols ?df c"
    and res: "\<forall>r. snd ?run = Inr r \<longrightarrow> cols (fst ?run) ''equity'' = Some (equity_series r)"
    by blast+
  from keep n have c: "cols (fst ?run) ''Close'' = Some [Fin 100, Fin 110, Fin 121]"
    and s: "cols (fst ?run) ''signal'' = Some [Fin 0, Fin 1, Fin 0]"
    by simp_all
  have "\<exists>r. snd ?run = Inr r"
    by (rule compute_performance_total [where prices = "[Fin 100, Fin 110, Fin 121]"
          and signals = "[Fin 0, Fin 1, Fin 0]"]) simp_all
  then obtain r where r: "snd ?run = Inr r" by blast
  with res have "map_sum id (\<lambda>r. Some (equity_series r)) (snd ?run)
      = Inr (cols (fst ?run) ''equity'')"
    by simp
  with n c s show ?thesis by blast
qed

text \<open>
  The caller's frame is not what it was. A frame with the columns \<open>Close\<close> and
  \<open>signal\<close> comes back with the column \<open>equity\<close> added: the equity series is an
  edit of the input frame. And when the prices are handed over in a column named
  \<open>price_ret\<close>, the call overwrites them with their returns.
\<close>

theorem frame_effect_edits_input:
  "cols (frame [0, 1, 2] [Fin 100, Fin 110, Fin 121] [Fin 0, Fin 1, Fin 0]) ''equity'' = None \<and>
   cols (fst (compute_performance (\<lambda>_. None)
      (frame [0, 1, 2] [Fin 100, Fin 110, Fin 121] [Fin 0, Fin 1, Fin 0])
      ''signal'' ''Close'' (Fin 1))) ''equity'' = Some [Fin 1, Fin 1, Fin (11 / 10)] \<and>
   fst (compute_performance (\<lambda>_. None)
      (frame [0, 1, 2] [Fin 100, Fin 110, Fin 121] [Fin 0, Fin 1, Fin 0])
      ''signal'' ''Close'' (Fin 1))
     \<noteq> frame [0, 1, 2] [Fin 100, Fin 110, Fin 121] [Fin 0, Fin 1, Fin 0] \<and>
   cols (fst (compute_performance (\<lambda>_. None)
      \<lparr>index = [0, 1, 2],
       cols = [''price_ret'' \<mapsto> [Fin 100, Fin 110, Fin 121],
               ''signal'' \<mapsto> [Fin 0, Fin 1, Fin 0]]\<rparr>
      ''signal'' ''price_ret'' (Fin 1))) ''price_ret''
     = Some [Fin 0, Fin (1 / 10), Fin (1 / 10)]"
proof -
  let ?P = "[Fin 100, Fin 110, Fin 121]" and ?S = "[Fin 0, Fin 1, Fin 0]"
  let ?df = "frame [0, 1, 2] ?P ?S"
  let ?run = "compute_performance (\<lambda>_. None) ?df ''signal'' ''Close'' (Fin 1)"
  have none: "cols ?df ''equity'' = None" by (simp add: frame_def)
  have "equity_of (strat_ret_of ?S (price_ret_of ?P)) (Fin 1) = [Fin 1, Fin 1, Fin (11 / 10)]"
    by (simp add: series_eval)
  with compute_performance_equity [of ?df "''Close''" ?P "''signal''" ?S]
  have some: "cols (fst ?run) ''equity'' = Some [Fin 1, Fin 1, Fin (11 / 10)]"
    by simp
  from none some have ne: "fst ?run \<noteq> ?df" by auto
  have "price_ret_of ?P = [Fin 0, Fin (1 / 10), Fin (1 / 10)]"
    by (simp add: series_eval)
  with compute_performance_price_ret [of
      "\<lparr>index = [0, 1, 2], cols = [''price_ret'' \<mapsto> ?P, ''signal'' \<mapsto> ?S]\<rparr>"
      "''price_ret''" ?P]
  have over: "cols (fst (compute_performance (\<lambda>_. None)
      \<lparr>index = [0, 1, 2], cols = [''price_ret'' \<mapsto> ?P, ''signal'' \<mapsto> ?S]\<rparr>
      ''signal'' ''price_ret'' (Fin 1))) ''price_ret''
     = Some [Fin 0, Fin (1 / 10), Fin (1 / 10)]"
    by simp
  from none some ne over show ?thesis by blast
qed

section \<open>A frame of one row\<close>

lemma price_ret_of_single: "price_ret_of [p] = [Fin 0]"
  by (simp add: price_ret_of_def pct_change_def ffill_def shift_def fillna_def)

lemma strat_ret_of_single: "strat_ret_of [s] [Fin 0] = [Fin 0]"
  by (simp add: strat_ret_of_def shift_def fillna_def)

lemma equity_of_single: "equity_of [Fin 0] capital = [capital]"
  by (simp add: equity_of_def cumprod_def)

lemma std_single: "std [x] = NaN"
  by (simp add: std_def dropna_def)

lemma f64_div_self: "is_finite x \<Longrightarrow> x \<noteq> Fin 0 \<Longrightarrow> f64_div x x = Fin 1"
  by (cases x) simp_all

text \<open>
  C10, as the code has it. On a frame of one row the call does not return:
  \<open>pd.infer_freq\<close> needs three dates and raises ValueError. By then the call has
  assigned the columns \<open>strat_ret\<close>, the single value 0, and \<open>equity\<close>, the single
  value of the starting capital, and has computed the total return, 0 for a finite
  capital that is not 0, and the sample standard deviation of the one strategy return,
  not-a-number; with it the formulas of the annual volatility and of the Sharpe ratio
  give not-a-number for every annualization factor.
\<close>

theorem one_row:
  assumes "cols df price_col = Some [p]"
    and "cols df signal_col = Some [s]"
    and "signal_col \<noteq> ''price_ret''"
    and "length (index df) = 1"
  shows "snd (compute_performance inferer df signal_col price_col capital) = Inl ValueError \<and>
     cols (fst (compute_performance inferer df signal_col price_col capital)) ''strat_ret''
       = Some [Fin 0] \<and>
     cols (fst (compute_performance inferer df signal_col price_col capital)) ''equity''
       = Some [capital] \<and>
     (is_finite capital \<and> capital \<noteq> Fin 0 \<longrightarrow>
        f64_sub (f64_div (last [capital]) capital) (Fin 1) = Fin 0) \<and>
     std [Fin 0] = NaN \<and>
     ann_vol_of (std [Fin 0]) f = NaN \<and>
     sharpe_of (mean [Fin 0]) (std [Fin 0]) f = NaN"
proof -
  have raise: "snd (compute_performance inferer df signal_col price_col capital)
      = Inl ValueError"
    using assms
    by (simp add: compute_performance_def getitem_def setitem_def Let_def
        price_ret_of_single strat_ret_of_single equity_of_single iloc_last_def
        infer_freq_def)
  have sr: "cols (fst (compute_performance inferer df signal_col price_col capital))
      ''strat_ret'' = Some [Fin 0]"
    using compute_performance_strat_ret [OF assms(1-3)]
    by (simp add: price_ret_of_single strat_ret_of_single)
  have eq: "cols (fst (compute_performance inferer df signal_col price_col capital))
      ''equity'' = Some [capital]"
    using compute_performance_equity [OF assms(1-3)]
    by (simp add: price_ret_of_single strat_ret_of_single equity_of_single)
  have tr: "is_finite capital \<and> capital \<noteq> Fin 0 \<longrightarrow>
        f64_sub (f64_div (last [capital]) capital) (Fin 1) = Fin 0"
    by (simp add: f64_div_self)
  have st: "std [Fin 0] = NaN" "ann_vol_of (std [Fin 0]) f = NaN"
    "sharpe_of (mean [Fin 0]) (std [Fin 0]) f = NaN"
    by (simp_all add: std_single ann_vol_of_def sharpe_of_def)
  from raise sr eq tr st show ?thesis by blast
qed

text \<open>One row, the price 50 with the signal 0 and the starting capital 2.\<close>

theorem one_row_witness:
  "cols (frame [0] [Fin 50] [Fin 0]) ''Close'' = Some [Fin 50] \<and>
   cols (frame [0] [Fin 50] [Fin 0]) ''signal'' = Some [Fin 0] \<and>
   ''signal'' \<noteq> ''price_ret'' \<and>
   length (index (frame [0] [Fin 50] [Fin 0])) = 1 \<and>
   is_finite (Fin 2) \<and> Fin 2 \<noteq> Fin 0 \<and>
   snd (compute_performance (\<lambda>_. Some ''D'') (frame [0] [Fin 50] [Fin 0])
      ''signal'' ''Close'' (Fin 2)) = Inl ValueError \<and>
   cols (fst (compute_performance (\<lambda>_. Some ''D'') (frame [0] [Fin 50] [Fin 0])
      ''signal'' ''Close'' (Fin 2))) ''equity'' = Some [Fin 2] \<and>
   f64_sub (f64_div (last [Fin 2]) (Fin 2)) (Fin 1) = Fin 0"
proof -
  have h: "cols (frame [0] [Fin 50] [Fin 0]) ''Close'' = Some [Fin 50]"
    "cols (frame [0] [Fin 50] [Fin 0]) ''signal'' = Some [Fin 0]"
    "''signal'' \<noteq> ''price_ret''"
    "length (index (frame [0] [Fin 50] [Fin 0])) = 1"
    by simp_all
  have c: "is_finite (Fin 2) \<and> Fin 2 \<noteq> Fin 0" by simp
  from one_row [OF h, of "\<lambda>_. Some ''D''" "Fin 2"] c h show ?thesis
    by blast
qed

text \<open>
  One row, the price 100 with the signal 1 and the starting capital 1: the call raises
  ValueError and returns no result.
\<close>

theorem one_row_raises:
  "snd (compute_performance (\<lambda>_. Some ''D'') (frame [0] [Fin 100] [Fin 1])
      ''signal'' ''Close'' (Fin 1)) = Inl ValueError"
  by (simp add: compute_performance_def getitem_def setitem_def Let_def frame_def
      price_ret_of_single strat_ret_of_single equity_of_single iloc_last_def
      infer_freq_def)

section \<open>The Sharpe ratio\<close>

lemma compute_performance_sharpe:
  assumes "cols df price_col = Some prices"
    and "cols df signal_col = Some signals"
    and "signal_col \<noteq> ''price_ret''"
    and "length signals = length prices"
    and "length (index df) = length prices"
    and "3 \<le> length prices"
  shows "\<exists>r f. snd (compute_performance inferer df signal_col price_col capital) = Inr r \<and>
      annualization_factor (or_D (inferer (index df))) = Inr f \<and> 0 < f \<and>
      returns_series r = strat_ret_of signals (price_ret_of prices) \<and>
      sharpe_ratio r = sharpe_of (mean (returns_series r)) (std (returns_series r)) f"
proof -
  obtain f where f: "annualization_factor (or_D (inferer (index df))) = Inr f"
    and "f \<in> {252, 1638, 6552}"
    using annualization_factor_or_D by blast
  then have "0 < f" by auto
  with f compute_performance_returns [where inferer = inferer and f = f, OF assms f]
  show ?thesis by (simp add: Let_def)
qed

lemma compute_performance_short:
  assumes "cols df price_col = Some prices"
    and "cols df signal_col = Some signals"
    and "signal_col \<noteq> ''price_ret''"
    and "length signals = length prices"
    and "length (index df) = length prices"
  shows "prices = [] \<longrightarrow>
       snd (compute_performance inferer df signal_col price_col capital) = Inl IndexError"
    and "prices \<noteq> [] \<and> length prices < 3 \<longrightarrow>
       snd (compute_performance inferer df signal_col price_col capital) = Inl ValueError"
proof -
  have len: "length (equity_of (strat_ret_of signals (price_ret_of prices)) capital)
      = length prices"
    using assms(4) by simp
  then have emp: "equity_of (strat_ret_of signals (price_ret_of prices)) capital = []
      \<longleftrightarrow> prices = []"
    by (simp flip: length_0_conv)
  show "prices = [] \<longrightarrow>
       snd (compute_performance inferer df signal_col price_col capital) = Inl IndexError"
  proof
    assume "prices = []"
    with emp have e: "equity_of (strat_ret_of signals (price_ret_of prices)) capital = []"
      by blast
    show "snd (compute_performance inferer df signal_col price_col capital) = Inl IndexError"
      using assms(1-3)
      by (simp add: compute_performance_def getitem_def setitem_def Let_def iloc_last_def e)
  qed
  show "prices \<noteq> [] \<and> length prices < 3 \<longrightarrow>
       snd (compute_performance inferer df signal_col price_col capital) = Inl ValueError"
  proof
    assume short: "prices \<noteq> [] \<and> length prices < 3"
    with emp have e: "equity_of (strat_ret_of signals (price_ret_of prices)) capital \<noteq> []"
      by blast
    from short assms(5) have i: "length (index df) < 3" by simp
    show "snd (compute_performance inferer df signal_col price_col capital) = Inl ValueError"
      using assms(1-3)
      by (simp add: compute_performance_def getitem_def setitem_def Let_def iloc_last_def
          infer_freq_def e i)
  qed
qed

text \<open>
  C5, as the code has it. For a frame that holds the price and the signal column,
  aligned and indexed by dates. With three rows or more the call returns, with the
  annualization factor \<open>f\<close> of the inferred frequency: when the sample standard
  deviation of the strategy returns is not 0, the Sharpe ratio is
  \<open>(mean / std) * sqrt f\<close>; when it is 0, the Sharpe ratio is not-a-number, not 0
  and no finite value, and nothing is raised. With one or two rows the call raises
  ValueError, at the frequency inference that comes before the Sharpe ratio, whatever
  the standard deviation; with no row it raises IndexError.
\<close>

theorem sharpe_ratio_rule:
  assumes "cols df price_col = Some prices"
    and "cols df signal_col = Some signals"
    and "signal_col \<noteq> ''price_ret''"
    and "length signals = length prices"
    and "length (index df) = length prices"
  shows "(3 \<le> length prices \<longrightarrow>
      (\<exists>r f. snd (compute_performance inferer df signal_col price_col capital) = Inr r \<and>
        annualization_factor (or_D (inferer (index df))) = Inr f \<and>
        returns_series r = strat_ret_of signals (price_ret_of prices) \<and>
        (std (returns_series r) \<noteq> Fin 0 \<longrightarrow>
           sharpe_ratio r =
             f64_mul (f64_div (mean (returns_series r)) (std (returns_series r)))
               (Fin (sqrt f))) \<and>
        (std (returns_series r) = Fin 0 \<longrightarrow>
           sharpe_ratio r = NaN \<and> sharpe_ratio r \<noteq> Fin 0 \<and>
           (\<forall>v. sharpe_ratio r \<noteq> Fin v)))) \<and>
     (prices \<noteq> [] \<and> length prices < 3 \<longrightarrow>
        snd (compute_performance inferer df signal_col price_col capital) = Inl ValueError) \<and>
     (prices = [] \<longrightarrow>
        snd (compute_performance inferer df signal_col price_col capital) = Inl IndexError)"
proof -
  have long: "\<exists>r f. snd (compute_performance inferer df signal_col price_col capital) = Inr r \<and>
        annualization_factor (or_D (inferer (index df))) = Inr f \<and>
        returns_series r = strat_ret_of signals (price_ret_of prices) \<and>
        (std (returns_series r) \<noteq> Fin 0 \<longrightarrow>
           sharpe_ratio r =
             f64_mul (f64_div (mean (returns_series r)) (std (returns_series r)))
               (Fin (sqrt f))) \<and>
        (std (returns_series r) = Fin 0 \<longrightarrow>
           sharpe_ratio r = NaN \<and> sharpe_ratio r \<noteq> Fin 0 \<and>
           (\<forall>v. sharpe_ratio r \<noteq> Fin v))"
    if three: "3 \<le> length prices"
  proof -
    from compute_performance_sharpe [OF assms three] obtain r f where
      r: "snd (compute_performance inferer df signal_col price_col capital) = Inr r"
      and f: "annualization_factor (or_D (inferer (index df))) = Inr f" and pos: "0 < f"
      and sr: "returns_series r = strat_ret_of signals (price_ret_of prices)"
      and sh: "sharpe_ratio r = sharpe_of (mean (returns_series r)) (std (returns_series r)) f"
      by blast
    from pos have sq: "f64_sqrt (Fin f) = Fin (sqrt f)" by simp
    have nz: "std (returns_series r) \<noteq> Fin 0 \<longrightarrow>
           sharpe_ratio r =
             f64_mul (f64_div (mean (returns_series r)) (std (returns_series r)))
               (Fin (sqrt f))"
      using sh sq by (simp add: sharpe_of_def)
    have z: "std (returns_series r) = Fin 0 \<longrightarrow>
           sharpe_ratio r = NaN \<and> sharpe_ratio r \<noteq> Fin 0 \<and>
           (\<forall>v. sharpe_ratio r \<noteq> Fin v)"
      using sh by (simp add: sharpe_of_def)
    from r f sr nz z show ?thesis by blast
  qed
  with compute_performance_short [OF assms] show ?thesis by blast
qed

lemma mean_step: "mean [Fin 0, Fin 0, Fin (1 / 10)] = Fin (1 / 30)"
  by (simp add: mean_def dropna_def series_sum_def)

lemma std_flat: "std [Fin 0, Fin 0, Fin 0] = Fin 0"
  by (simp add: std_def dropna_def series_sum_def)

lemma std_flat2: "std [Fin 0, Fin 0] = Fin 0"
  by (simp add: std_def dropna_def series_sum_def)

lemma std_step: "std [Fin 0, Fin 0, Fin (1 / 10)] = Fin (sqrt (1 / 300))"
  by (simp add: std_def dropna_def series_sum_def)

lemma sharpe_step: "1 / 30 / sqrt (1 / 300) * sqrt 252 = sqrt 84"
proof -
  have a: "sqrt 300 = 10 * sqrt 3"
    using real_sqrt_mult [of 100 3] real_sqrt_abs [of 10] by simp
  have b: "sqrt 252 = 6 * sqrt 7"
    using real_sqrt_mult [of 36 7] real_sqrt_abs [of 6] by simp
  have c: "sqrt 84 = 2 * (sqrt 3 * sqrt 7)"
    using real_sqrt_mult [of 4 21] real_sqrt_mult [of 3 7] real_sqrt_abs [of 2] by simp
  have d: "sqrt (1 / 300) = 1 / sqrt 300"
    by (simp add: real_sqrt_divide)
  have "sqrt 3 \<noteq> 0" by simp
  then show ?thesis
    by (simp add: a b c d field_simps)
qed

text \<open>
  The rule on three frames. On three rows with the signals 0, 0, 0 the strategy
  returns are flat and the Sharpe ratio is not-a-number. On three rows with the
  signals 0, 1, 0 the strategy returns are 0, 0, 0.1, with the mean 1/30 and the
  standard deviation \<open>sqrt (1/300)\<close>, and the Sharpe ratio on daily dates is
  \<open>sqrt 84\<close>, about 9.17. On two rows the call raises ValueError.
\<close>

theorem sharpe_ratio_rule_witness:
  "cols (frame [0, 1, 2] [Fin 100, Fin 110, Fin 121] [Fin 0, Fin 0, Fin 0]) ''Close''
     = Some [Fin 100, Fin 110, Fin 121] \<and>
   cols (frame [0, 1, 2] [Fin 100, Fin 110, Fin 121] [Fin 0, Fin 0, Fin 0]) ''signal''
     = Some [Fin 0, Fin 0, Fin 0] \<and>
   cols (frame [0, 1, 2] [Fin 100, Fin 110, Fin 121] [Fin 0, Fin 1, Fin 0]) ''signal''
     = Some [Fin 0, Fin 1, Fin 0] \<and>
   ''signal'' \<noteq> ''price_ret'' \<and>
   length [Fin 0, Fin 0, Fin 0] = length [Fin 100, Fin 110, Fin 121] \<and>
   length (index (frame [0, 1, 2] [Fin 100, Fin 110, Fin 121] [Fin 0, Fin 0, Fin 0]))
     = length [Fin 100, Fin 110, Fin 121] \<and>
   3 \<le> length [Fin 100, Fin 110, Fin 121] \<and>
   [Fin 100, Fin 110] \<noteq> [] \<and> length [Fin 100, Fin 110] < 3 \<and>
   std [Fin 0, Fin 0, Fin 0] = Fin 0 \<and>
   mean [Fin 0, Fin 0, Fin (1 / 10)] = Fin (1 / 30) \<and>
   std [Fin 0, Fin 0, Fin (1 / 10)] = Fin (sqrt (1 / 300)) \<and>
   std [Fin 0, Fin 0, Fin (1 / 10)] \<noteq> Fin 0 \<and>
   map_sum id sharpe_ratio (snd (compute_performance (\<lambda>_. Some ''D'')
      (frame [0, 1, 2] [Fin 100, Fin 110, Fin 121] [Fin 0, Fin 0, Fin 0])
      ''signal'' ''Close'' (Fin 1))) = Inr NaN \<and>
   map_sum id sharpe_ratio (snd (compute_performance (\<lambda>_. Some ''D'')
      (frame [0, 1, 2] [Fin 100, Fin 110, Fin 121] [Fin 0, Fin 1, Fin 0])
      ''signal'' ''Close'' (Fin 1))) = Inr (Fin (sqrt 84)) \<and>
   snd (compute_performance (\<lambda>_. Some ''D'')
      (frame [0, 1] [Fin 100, Fin 110] [Fin 0, Fin 1])
      ''signal'' ''Close'' (Fin 1)) = Inl ValueError"
proof -
  let ?P = "[Fin 100, Fin 110, Fin 121]"
  let ?S0 = "[Fin 0, Fin 0, Fin 0]" and ?S1 = "[Fin 0, Fin 1, Fin 0]"
  let ?run0 = "compute_performance (\<lambda>_. Some ''D'') (frame [0, 1, 2] ?P ?S0)
      ''signal'' ''Close'' (Fin 1)"
  let ?run1 = "compute_performance (\<lambda>_. Some ''D'') (frame [0, 1, 2] ?P ?S1)
      ''signal'' ''Close'' (Fin 1)"
  let ?run2 = "compute_performance (\<lambda>_. Some ''D'')
      (frame [0, 1] [Fin 100, Fin 110] [Fin 0, Fin 1]) ''signal'' ''Close'' (Fin 1)"
  have h0: "cols (frame [0, 1, 2] ?P ?S0) ''Close'' = Some ?P"
    "cols (frame [0, 1, 2] ?P ?S0) ''signal'' = Some ?S0"
    "''signal'' \<noteq> ''price_ret''" "length ?S0 = length ?P"
    "length (index (frame [0, 1, 2] ?P ?S0)) = length ?P"
    by simp_all
  have h1: "cols (frame [0, 1, 2] ?P ?S1) ''Close'' = Some ?P"
    "cols (frame [0, 1, 2] ?P ?S1) ''signal'' = Some ?S1"
    "''signal'' \<noteq> ''price_ret''" "length ?S1 = length ?P"
    "length (index (frame [0, 1, 2] ?P ?S1)) = length ?P"
    by simp_all
  have h2: "cols (frame [0, 1] [Fin 100, Fin 110] [Fin 0, Fin 1]) ''Close''
      = Some [Fin 100, Fin 110]"
    "cols (frame [0, 1] [Fin 100, Fin 110] [Fin 0, Fin 1]) ''signal'' = Some [Fin 0, Fin 1]"
    "''signal'' \<noteq> ''price_ret''" "length [Fin 0, Fin 1] = length [Fin 100, Fin 110]"
    "length (index (frame [0, 1] [Fin 100, Fin 110] [Fin 0, Fin 1]))
      = length [Fin 100, Fin 110]"
    by simp_all
  have three: "3 \<le> length ?P" and two: "[Fin 100, Fin 110] \<noteq> [] \<and> length [Fin 100, Fin 110] < 3"
    by simp_all
  have sr0: "strat_ret_of ?S0 (price_ret_of ?P) = [Fin 0, Fin 0, Fin 0]"
    and sr1: "strat_ret_of ?S1 (price_ret_of ?P) = [Fin 0, Fin 0, Fin (1 / 10)]"
    by (simp_all add: series_eval)
  have nz: "std [Fin 0, Fin 0, Fin (1 / 10)] \<noteq> Fin 0"
    by (simp add: std_step)
  have f: "annualization_factor (or_D (Some ''D'')) = Inr f \<longleftrightarrow> f = 252" for f
    by (auto simp: or_D_def annualization_factor_Cons)
  from sharpe_ratio_rule [OF h0, of "\<lambda>_. Some ''D''" "Fin 1"] three
  have a: "map_sum id sharpe_ratio (snd ?run0) = Inr NaN"
    by (auto simp: sr0 std_flat)
  from sharpe_ratio_rule [OF h1, of "\<lambda>_. Some ''D''" "Fin 1"] three
  have "map_sum id sharpe_ratio (snd ?run1)
     = Inr (f64_mul (f64_div (mean [Fin 0, Fin 0, Fin (1 / 10)])
              (std [Fin 0, Fin 0, Fin (1 / 10)])) (Fin (sqrt 252)))"
    using nz by (auto simp: sr1 f)
  also have "f64_mul (f64_div (mean [Fin 0, Fin 0, Fin (1 / 10)])
              (std [Fin 0, Fin 0, Fin (1 / 10)])) (Fin (sqrt 252))
      = Fin (1 / 30 / sqrt (1 / 300) * sqrt 252)"
    by (simp add: mean_step std_step)
  finally have b: "map_sum id sharpe_ratio (snd ?run1) = Inr (Fin (sqrt 84))"
    by (simp only: sharpe_step)
  from sharpe_ratio_rule [OF h2, of "\<lambda>_. Some ''D''" "Fin 1"] two
  have c: "snd ?run2 = Inl ValueError"
    by blast
  from h0 h1 three two std_flat mean_step std_step nz a b c show ?thesis by blast
qed

text \<open>
  Two rows, the prices 100, 110 with the signals 0, 0: the strategy returns are 0, 0,
  their sample standard deviation is 0, and the call raises ValueError: no Sharpe
  ratio is reported.
\<close>

theorem sharpe_ratio_two_rows:
  "strat_ret_of [Fin 0, Fin 0] (price_ret_of [Fin 100, Fin 110]) = [Fin 0, Fin 0] \<and>
   std [Fin 0, Fin 0] = Fin 0 \<and>
   snd (compute_performance (\<lambda>_. Some ''D'')
      (frame [0, 1] [Fin 100, Fin 110] [Fin 0, Fin 0])
      ''signal'' ''Close'' (Fin 1)) = Inl ValueError"
proof -
  have sr: "strat_ret_of [Fin 0, Fin 0] (price_ret_of [Fin 100, Fin 110]) = [Fin 0, Fin 0]"
    by (simp add: series_eval)
  have eq: "equity_of [Fin 0, Fin 0] (Fin 1) = [Fin 1, Fin 1]"
    by (simp add: series_eval)
  have "snd (compute_performance (\<lambda>_. Some ''D'')
      (frame [0, 1] [Fin 100, Fin 110] [Fin 0, Fin 0])
      ''signal'' ''Close'' (Fin 1)) = Inl ValueError"
    by (simp add: compute_performance_def getitem_def setitem_def Let_def frame_def
        sr eq iloc_last_def infer_freq_def)
  with sr std_flat2 show ?thesis by simp
qed

section \<open>The maximum drawdown\<close>

lemma Max_insert_max:
  fixes m x :: real
  assumes "finite S"
  shows "Max (insert (max m x) S) = Max (insert m (insert x S))"
proof (cases "S = {}")
  case True
  then show ?thesis by (simp add: max.commute)
next
  case False
  with assms show ?thesis by (simp add: max.assoc)
qed

lemma Min_insert_min:
  fixes v x :: real
  assumes "finite S"
  shows "Min (insert (min v x) S) = Min (insert v (insert x S))"
proof (cases "S = {}")
  case True
  then show ?thesis by (simp add: min.commute)
next
  case False
  with assms show ?thesis by (simp add: min.assoc)
qed

lemma cummax_from_Fin_nth:
  "i < length xs \<Longrightarrow>
     cummax_from (Fin m) (map Fin xs) ! i = Fin (Max (insert m (set (take (Suc i) xs))))"
proof (induction xs arbitrary: m i)
  case Nil
  then show ?case by simp
next
  case (Cons x xs)
  show ?case
  proof (cases i)
    case 0
    then show ?thesis by (simp add: f64_max_def max_def)
  next
    case (Suc j)
    with Cons.prems have j: "j < length xs" by simp
    have "Max (insert (max m x) (set (take (Suc j) xs)))
        = Max (insert m (insert x (set (take (Suc j) xs))))"
      by (rule Max_insert_max) simp
    moreover have "f64_max (Fin m) (Fin x) = Fin (max m x)"
      by (simp add: f64_max_def max_def)
    ultimately show ?thesis
      using Cons.IH [OF j, of "max m x"] Suc by (simp del: Max_insert)
  qed
qed

lemma cummax_Fin_nth:
  assumes "i < length rs"
  shows "cummax (map Fin rs) ! i = Fin (spec_running_max rs i)"
proof (cases rs)
  case Nil
  with assms show ?thesis by simp
next
  case (Cons x xs)
  show ?thesis
  proof (cases i)
    case 0
    with Cons show ?thesis
      by (simp add: cummax_def f64_max_def spec_running_max_def)
  next
    case (Suc j)
    with assms Cons have "j < length xs" by simp
    from cummax_from_Fin_nth [OF this, of x] Suc Cons show ?thesis
      by (simp add: cummax_def f64_max_def spec_running_max_def)
  qed
qed

lemma spec_running_max_ge:
  assumes "i < length rs" and "j \<le> i"
  shows "rs ! j \<le> spec_running_max rs i"
proof -
  from assms have "j < length (take (Suc i) rs)" by simp
  then have "take (Suc i) rs ! j \<in> set (take (Suc i) rs)" by (rule nth_mem)
  moreover from assms have "take (Suc i) rs ! j = rs ! j" by simp
  ultimately have "rs ! j \<in> set (take (Suc i) rs)" by simp
  then show ?thesis by (simp add: spec_running_max_def)
qed

lemma spec_running_max_attained:
  assumes "i < length rs"
  shows "\<exists>j\<le>i. spec_running_max rs i = rs ! j"
proof -
  from assms have ne: "set (take (Suc i) rs) \<noteq> {}" by (cases rs) simp_all
  have "Max (set (take (Suc i) rs)) \<in> set (take (Suc i) rs)"
    using ne by (intro Max_in) simp_all
  then obtain k where k: "k < length (take (Suc i) rs)"
    and eq: "take (Suc i) rs ! k = Max (set (take (Suc i) rs))"
    by (auto simp: in_set_conv_nth)
  from k have "k \<le> i" by simp
  moreover from k eq have "spec_running_max rs i = rs ! k"
    by (simp add: spec_running_max_def)
  ultimately show ?thesis by blast
qed

lemma spec_running_max_pos:
  assumes "i < length rs" and "0 < hd rs"
  shows "0 < spec_running_max rs i"
proof -
  from assms(1) have "rs ! 0 \<le> spec_running_max rs i"
    by (intro spec_running_max_ge) simp_all
  moreover from assms have "hd rs = rs ! 0" by (cases rs) simp_all
  ultimately show ?thesis using assms(2) by simp
qed

lemma drawdown_of_Fin:
  assumes "0 < hd rs"
  shows "drawdown_of (map Fin rs) = map (\<lambda>i. Fin (spec_drawdown rs i)) [0..<length rs]"
proof (rule nth_equalityI)
  show "length (drawdown_of (map Fin rs))
      = length (map (\<lambda>i. Fin (spec_drawdown rs i)) [0..<length rs])"
    by simp
next
  fix i assume "i < length (drawdown_of (map Fin rs))"
  then have i: "i < length rs" by simp
  from spec_running_max_pos [OF i assms] have nz: "spec_running_max rs i \<noteq> 0" by simp
  from i have "drawdown_of (map Fin rs) ! i
      = f64_sub (f64_div (Fin (rs ! i)) (cummax (map Fin rs) ! i)) (Fin 1)"
    by (simp add: drawdown_of_def Let_def cummax_def)
  with i nz show "drawdown_of (map Fin rs) ! i
      = map (\<lambda>i. Fin (spec_drawdown rs i)) [0..<length rs] ! i"
    by (simp add: cummax_Fin_nth spec_drawdown_def)
qed

lemma foldl_f64_min_Fin:
  "foldl f64_min (Fin v) (map Fin vs) = Fin (Min (insert v (set vs)))"
proof (induction vs arbitrary: v)
  case Nil
  then show ?case by simp
next
  case (Cons x xs)
  have "Min (insert (min v x) (set xs)) = Min (insert v (insert x (set xs)))"
    by (rule Min_insert_min) simp
  moreover have "f64_min (Fin v) (Fin x) = Fin (min v x)"
    by (simp add: f64_min_def min_def)
  ultimately show ?case
    using Cons [of "min v x"] by (simp del: Min_insert)
qed

lemma series_min_Fin:
  assumes "ds \<noteq> []"
  shows "series_min (map Fin ds) = Fin (Min (set ds))"
proof -
  have "dropna (map Fin ds) = map Fin ds"
    by (simp add: dropna_def filter_map comp_def)
  with assms show ?thesis
    by (cases ds) (simp_all add: series_min_def foldl_f64_min_Fin)
qed

lemma max_dd_of_Fin:
  assumes "rs \<noteq> []" and "0 < hd rs"
  shows "max_dd_of (map Fin rs) = Fin (spec_max_drawdown rs)"
proof -
  have "map (\<lambda>i. Fin (spec_drawdown rs i)) [0..<length rs]
      = map Fin (map (spec_drawdown rs) [0..<length rs])"
    by simp
  moreover have "set (map (spec_drawdown rs) [0..<length rs])
      = spec_drawdown rs ` {..<length rs}"
    by (simp add: lessThan_atLeast0)
  ultimately show ?thesis
    using assms
    by (simp add: max_dd_of_def drawdown_of_Fin series_min_Fin spec_max_drawdown_def
        del: map_map)
qed

lemma spec_drawdown_le_0:
  assumes "i < length rs" and "0 < hd rs"
  shows "spec_drawdown rs i \<le> 0"
proof -
  have "rs ! i \<le> spec_running_max rs i"
    using assms(1) by (intro spec_running_max_ge) simp_all
  with spec_running_max_pos [OF assms] show ?thesis
    by (simp add: spec_drawdown_def)
qed

lemma spec_max_drawdown_le_0:
  assumes "rs \<noteq> []" and "0 < hd rs"
  shows "spec_max_drawdown rs \<le> 0"
proof -
  from assms(1) have "spec_drawdown rs 0 \<in> spec_drawdown rs ` {..<length rs}"
    by simp
  then have "spec_max_drawdown rs \<le> spec_drawdown rs 0"
    by (simp add: spec_max_drawdown_def)
  also from assms have "\<dots> \<le> 0" by (intro spec_drawdown_le_0) simp_all
  finally show ?thesis .
qed

lemma spec_max_drawdown_zero_iff:
  assumes "rs \<noteq> []" and "0 < hd rs"
  shows "spec_max_drawdown rs = 0 \<longleftrightarrow> (\<forall>i<length rs. \<forall>j\<le>i. rs ! j \<le> rs ! i)"
proof
  assume z: "spec_max_drawdown rs = 0"
  show "\<forall>i<length rs. \<forall>j\<le>i. rs ! j \<le> rs ! i"
  proof (intro allI impI)
    fix i j assume i: "i < length rs" and j: "j \<le> i"
    from i have "spec_max_drawdown rs \<le> spec_drawdown rs i"
      by (simp add: spec_max_drawdown_def)
    with z have "0 \<le> rs ! i / spec_running_max rs i - 1"
      by (simp add: spec_drawdown_def)
    with spec_running_max_pos [OF i assms(2)] have "spec_running_max rs i \<le> rs ! i"
      by (simp add: field_simps)
    with spec_running_max_ge [OF i j] show "rs ! j \<le> rs ! i" by simp
  qed
next
  assume mono: "\<forall>i<length rs. \<forall>j\<le>i. rs ! j \<le> rs ! i"
  have "spec_drawdown rs i = 0" if i: "i < length rs" for i
  proof -
    from spec_running_max_attained [OF i] obtain j where "j \<le> i"
      and "spec_running_max rs i = rs ! j" by blast
    with mono i have "spec_running_max rs i \<le> rs ! i" by simp
    moreover have "rs ! i \<le> spec_running_max rs i"
      using i by (intro spec_running_max_ge) simp_all
    ultimately have "spec_running_max rs i = rs ! i" by simp
    with spec_running_max_pos [OF i assms(2)] show ?thesis
      by (simp add: spec_drawdown_def)
  qed
  then have "spec_drawdown rs ` {..<length rs} = {0}"
    using assms(1) by (auto simp: image_def intro!: exI [of _ 0])
  then show "spec_max_drawdown rs = 0"
    by (simp add: spec_max_drawdown_def)
qed

lemma compute_performance_max_drawdown:
  assumes "snd (compute_performance inferer df signal_col price_col capital) = Inr r"
  shows "max_drawdown r = max_dd_of (equity_series r)"
  using assms
  by (auto simp: compute_performance_def Let_def split: sum.splits)

text \<open>
  C4, as the code has it. When the equity series the call returns holds finite values
  only and starts above 0 (a positive starting capital), the maximum drawdown returned
  is the minimum over all \<open>i\<close> of \<open>equity[i] / running_max[i] - 1\<close>, with
  \<open>running_max[i]\<close> the maximum of \<open>equity[0..i]\<close>; it is at most 0; and it is 0
  exactly when no value of the series lies below a value before it.
\<close>

theorem max_drawdown_rule:
  assumes "map_sum id equity_series
      (snd (compute_performance inferer df signal_col price_col capital))
        = Inr (map Fin equity)"
    and "0 < hd equity"
  shows "map_sum id max_drawdown
      (snd (compute_performance inferer df signal_col price_col capital))
        = Inr (Fin (spec_max_drawdown equity)) \<and>
     spec_max_drawdown equity \<le> 0 \<and>
     (spec_max_drawdown equity = 0 \<longleftrightarrow>
        (\<forall>i<length equity. \<forall>j\<le>i. equity ! j \<le> equity ! i))"
proof -
  from assms(1) obtain r where
    r: "snd (compute_performance inferer df signal_col price_col capital) = Inr r"
    and eq: "equity_series r = map Fin equity"
    by (cases "snd (compute_performance inferer df signal_col price_col capital)") auto
  from compute_performance_nonempty [OF r] eq have ne: "equity \<noteq> []" by auto
  from compute_performance_max_drawdown [OF r] eq
  have "max_drawdown r = Fin (spec_max_drawdown equity)"
    by (simp add: max_dd_of_Fin [OF ne assms(2)])
  with r spec_max_drawdown_le_0 [OF ne assms(2)]
    spec_max_drawdown_zero_iff [OF ne assms(2)]
  show ?thesis by simp
qed

text \<open>
  The rule on the prices 100, 110, 99 with the signals 1, 1, 0: the equity rises to
  1.1 and falls to 0.99, a drawdown of a tenth.
\<close>

theorem max_drawdown_rule_witness:
  "map_sum id equity_series (snd (compute_performance (\<lambda>_. None)
      (frame [0, 1, 2] [Fin 100, Fin 110, Fin 99] [Fin 1, Fin 1, Fin 0])
      ''signal'' ''Close'' (Fin 1))) = Inr (map Fin [1, 11 / 10, 99 / 100]) \<and>
   (0 :: real) < hd [1, 11 / 10, 99 / 100] \<and>
   map_sum id max_drawdown (snd (compute_performance (\<lambda>_. None)
      (frame [0, 1, 2] [Fin 100, Fin 110, Fin 99] [Fin 1, Fin 1, Fin 0])
      ''signal'' ''Close'' (Fin 1))) = Inr (Fin (- (1 / 10))) \<and>
   spec_max_drawdown [1, 11 / 10, 99 / 100] = - (1 / 10)"
proof -
  let ?run = "compute_performance (\<lambda>_. None)
      (frame [0, 1, 2] [Fin 100, Fin 110, Fin 99] [Fin 1, Fin 1, Fin 0])
      ''signal'' ''Close'' (Fin 1)"
  have f: "annualization_factor (or_D ((\<lambda>_. None) [0, 1, 2 :: timestamp])) = Inr 252"
    by (simp add: or_D_def annualization_factor_Cons)
  have e: "equity_of (strat_ret_of [Fin 1, Fin 1, Fin 0] (price_ret_of [Fin 100, Fin 110, Fin 99]))
      (Fin 1) = [Fin 1, Fin (11 / 10), Fin (99 / 100)]"
    by (simp add: series_eval)
  have d: "max_dd_of [Fin 1, Fin (11 / 10), Fin (99 / 100)] = Fin (- (1 / 10))"
    by (simp add: series_eval)
  have run: "map_sum id equity_series (snd ?run) = Inr (map Fin [1, 11 / 10, 99 / 100])"
    and dd: "map_sum id max_drawdown (snd ?run) = Inr (Fin (- (1 / 10)))"
    by (simp_all add: compute_performance_frame [where inferer = "\<lambda>_. None" and f = 252]
        f e d Let_def)
  have pos: "(0 :: real) < hd [1, 11 / 10, 99 / 100]" by simp
  from max_drawdown_rule [OF run pos] dd
  have "spec_max_drawdown [1, 11 / 10, 99 / 100] = - (1 / 10)" by simp
  with run pos dd show ?thesis by blast
qed

text \<open>
  With the starting capital -1, the prices 1, 2, 2 and the signals 1, 0, 0 the equity
  falls from -1 to -2, yet the maximum drawdown is 0: the running maximum is negative,
  and the quotient of a lower value by it is above 1. And with the starting capital 1,
  the prices 0, 1, 3 and the signals 1, -1, 0 the equity goes from 1 to plus infinity
  and on to minus infinity, and the maximum drawdown is 0 again: an infinity divided
  by an infinity is not-a-number, which the minimum skips.
\<close>

theorem max_drawdown_negative_equity:
  "map_sum id equity_series (snd (compute_performance (\<lambda>_. None)
      (frame [0, 1, 2] [Fin 1, Fin 2, Fin 2] [Fin 1, Fin 0, Fin 0])
      ''signal'' ''Close'' (Fin (- 1)))) = Inr [Fin (- 1), Fin (- 2), Fin (- 2)] \<and>
   map_sum id max_drawdown (snd (compute_performance (\<lambda>_. None)
      (frame [0, 1, 2] [Fin 1, Fin 2, Fin 2] [Fin 1, Fin 0, Fin 0])
      ''signal'' ''Close'' (Fin (- 1)))) = Inr (Fin 0) \<and>
   map_sum id equity_series (snd (compute_performance (\<lambda>_. None)
      (frame [0, 1, 2] [Fin 0, Fin 1, Fin 3] [Fin 1, Fin (- 1), Fin 0])
      ''signal'' ''Close'' (Fin 1))) = Inr [Fin 1, PInf, NInf] \<and>
   map_sum id max_drawdown (snd (compute_performance (\<lambda>_. None)
      (frame [0, 1, 2] [Fin 0, Fin 1, Fin 3] [Fin 1, Fin (- 1), Fin 0])
      ''signal'' ''Close'' (Fin 1))) = Inr (Fin 0)"
proof -
  have f: "annualization_factor (or_D ((\<lambda>_. None) [0, 1, 2 :: timestamp])) = Inr 252"
    by (simp add: or_D_def annualization_factor_Cons)
  have e1: "equity_of (strat_ret_of [Fin 1, Fin 0, Fin 0] (price_ret_of [Fin 1, Fin 2, Fin 2]))
      (Fin (- 1)) = [Fin (- 1), Fin (- 2), Fin (- 2)]"
    by (simp add: series_eval)
  have d1: "max_dd_of [Fin (- 1), Fin (- 2), Fin (- 2)] = Fin 0"
    by (simp add: series_eval)
  have e2: "equity_of (strat_ret_of [Fin 1, Fin (- 1), Fin 0] (price_ret_of [Fin 0, Fin 1, Fin 3]))
      (Fin 1) = [Fin 1, PInf, NInf]"
    by (simp add: series_eval)
  have d2: "max_dd_of [Fin 1, PInf, NInf] = Fin 0"
    by (simp add: series_eval)
  show ?thesis
    by (simp add: compute_performance_frame [where inferer = "\<lambda>_. None" and f = 252]
        f e1 d1 e2 d2 Let_def)
qed

end
